theory Spec2Isabelle
  imports Main
begin

section \<open>JavaScript values and HTTP responses\<close>

text \<open>
  The authentication routes answer with \<^verbatim>\<open>res.status(n).json({...})\<close>. A response is its
  status code and the JSON object of its body; \<^verbatim>\<open>res.json\<close> alone answers 200. The keys of
  a body are kept in the order the source writes them. \<open>JDate t\<close> is the \<^verbatim>\<open>Date\<close> object of
  the time \<open>t\<close> in milliseconds, as the store returns a timestamp column; \<^verbatim>\<open>res.json\<close> writes it
  as its ISO-8601 text. Strings are lists of characters, one \<open>char\<close> for each unit that
  \<^verbatim>\<open>.length\<close> counts; a \<open>char\<close> holds the units below 256.
\<close>

datatype json =
  JNull | JBool bool | JNum int | JStr string | JDate int | JObj "(string \<times> json) list"

type_synonym obj = "(string \<times> json) list"

record response =
  status :: nat
  body :: obj

definition json_response :: "nat \<Rightarrow> obj \<Rightarrow> response" where
  "json_response n b = \<lparr>status = n, body = b\<rparr>"

definition has_field :: "response \<Rightarrow> string \<Rightarrow> bool" where
  "has_field r k = (k \<in> set (map fst (body r)))"

text \<open>
  A value read from the request (\<^verbatim>\<open>req.body.email\<close>, a header) is a string or absent.
  \<^verbatim>\<open>!v\<close> holds for an absent value and for the empty string.
\<close>

definition truthy :: "string option \<Rightarrow> string option" where
  "truthy v = (case v of None \<Rightarrow> None | Some s \<Rightarrow> (if s = [] then None else Some s))"

text \<open>A nullable timestamp column of a response body.\<close>

definition json_time :: "int option \<Rightarrow> json" where
  "json_time t = (case t of None \<Rightarrow> JNull | Some n \<Rightarrow> JDate n)"

subsection \<open>String operations\<close>

text \<open>
  \<^verbatim>\<open>s.toLowerCase()\<close>: among the units below 256, the letters \<open>A\<close> to \<open>Z\<close> (65 to 90) and
  the letters from 192 to 222, without the multiplication sign 215, have their lower-case
  form 32 places later.
\<close>

definition lower_char :: "char \<Rightarrow> char" where
  "lower_char c =
     (let n = (of_char c :: nat)
      in if (65 \<le> n \<and> n \<le> 90) \<or> (192 \<le> n \<and> n \<le> 222 \<and> n \<noteq> 215)
         then char_of (n + 32) else c)"

definition toLowerCase :: "string \<Rightarrow> string" where
  "toLowerCase s = map lower_char s"

text \<open>
  \<^verbatim>\<open>s.trim()\<close>: among the units below 256, the white space is tab, line feed, vertical tab,
  form feed, carriage return, space and the no-break space 160.
\<close>

definition is_space :: "char \<Rightarrow> bool" where
  "is_space c = ((of_char c :: nat) \<in> {9, 10, 11, 12, 13, 32, 160})"

definition trim :: "string \<Rightarrow> string" where
  "trim s = rev (dropWhile is_space (rev (dropWhile is_space s)))"

text \<open>\<^verbatim>\<open>s.split(c)\<close> for a one-character separator: the empty string gives one empty part.\<close>

fun split_on :: "char \<Rightarrow> string \<Rightarrow> string list" where
  "split_on c [] = [] # []"
| "split_on c (x # xs) =
     (if x = c then [] # split_on c xs
      else (case split_on c xs of [] \<Rightarrow> [x] # [] | w # ws \<Rightarrow> (x # w) # ws))"

text \<open>\<^verbatim>\<open>xs[i]\<close>: \<^verbatim>\<open>undefined\<close> out of range.\<close>

definition at_index :: "'a list \<Rightarrow> nat \<Rightarrow> 'a option" where
  "at_index xs i = (if i < length xs then Some (xs ! i) else None)"

section \<open>The credential store\<close>

text \<open>
  One row of the table \<^verbatim>\<open>admin_users\<close>, with the columns the routes read and write.
  A nullable column is an option; a timestamp is the number of milliseconds that
  \<^verbatim>\<open>Date.now()\<close> returns. A handler takes the time \<open>now\<close> of its request: every clock it
  reads while it serves one request (\<^verbatim>\<open>new Date()\<close>, \<^verbatim>\<open>Date.now()\<close>, \<^verbatim>\<open>NOW()\<close> in a
  statement) gives that time.
\<close>

record admin_user =
  user_id :: string
  email :: string
  name :: string
  password_hash :: string
  mfa_enabled :: bool
  mfa_secret :: "string option"
  mfa_secret_temp :: "string option"
  failed_login_attempts :: "int option"
  locked_until :: "int option"
  reset_token :: "string option"
  reset_token_expiry :: "int option"
  created_at :: "int option"
  last_login :: "int option"
  password_changed_at :: "int option"

text \<open>
  The connection pool: the rows of the table and whether the store answers. Every handler
  runs its queries inside \<^verbatim>\<open>try\<close>; a query against an unreachable store rejects and the
  \<^verbatim>\<open>catch\<close> block answers. The flag is read once for a request, at its first query (a
  store that fails between two queries of one request is not modelled).
\<close>

record pool =
  admin_users :: "admin_user list"
  reachable :: bool

text \<open>\<^verbatim>\<open>SELECT ... WHERE email = $1\<close> and \<^verbatim>\<open>WHERE id = $1\<close>, then \<^verbatim>\<open>result.rows[0]\<close>.\<close>

definition find_by_email :: "string \<Rightarrow> pool \<Rightarrow> admin_user option" where
  "find_by_email e p = find (\<lambda>u. email u = e) (admin_users p)"

definition find_by_id :: "string \<Rightarrow> pool \<Rightarrow> admin_user option" where
  "find_by_id i p = find (\<lambda>u. user_id u = i) (admin_users p)"

text \<open>\<^verbatim>\<open>UPDATE admin_users SET ... WHERE id = $n\<close>: one statement, applied to each row it matches.\<close>

definition update_where_id :: "string \<Rightarrow> (admin_user \<Rightarrow> admin_user) \<Rightarrow> pool \<Rightarrow> pool" where
  "update_where_id i f p =
     p\<lparr>admin_users := map (\<lambda>u. if user_id u = i then f u else u) (admin_users p)\<rparr>"

section \<open>Tokens\<close>

text \<open>
  The payloads the routes sign: \<^verbatim>\<open>{ userId, email, role: 'admin' }\<close> for a session token and
  \<^verbatim>\<open>{ userId, temp: true }\<close> for the temporary token of the MFA step.
\<close>

record claims =
  userId :: string
  email_claim :: "string option"
  role :: "string option"
  temp :: "bool option"

record jwt =
  payload :: claims
  signed_with :: string
  iat :: int
  exp :: int

datatype jwt_error = JsonWebTokenError | TokenExpiredError

text \<open>
  What the handlers take from outside: the configuration of the process
  (\<^verbatim>\<open>JWT_SECRET\<close>, \<^verbatim>\<open>GOOGLE_ALLOWED_EMAILS\<close>), the library functions they call
  (\<^verbatim>\<open>bcrypt.compare\<close>, \<^verbatim>\<open>bcrypt.hash\<close>, \<^verbatim>\<open>speakeasy.totp.verify\<close> with window 2 at a given
  time, SHA-256, the compact serialisation of a token and its parser), and the defaults of the columns
  that an \<^verbatim>\<open>INSERT\<close> does not name (the table's declaration is not part of the sources).
\<close>

record env =
  JWT_SECRET :: string
  GOOGLE_ALLOWED_EMAILS :: "string option"
  bcrypt_compare :: "string \<Rightarrow> string \<Rightarrow> bool"
  bcrypt_hash :: "string \<Rightarrow> string"
  totp_verify :: "string \<Rightarrow> string \<Rightarrow> int \<Rightarrow> bool"
  sha256 :: "string \<Rightarrow> string"
  jwt_encode :: "jwt \<Rightarrow> string"
  jwt_decode :: "string \<Rightarrow> jwt option"
  column_defaults :: admin_user

text \<open>
  Modelled from the spec: the library \<^verbatim>\<open>jsonwebtoken\<close> (\<^verbatim>\<open>jwt.sign\<close>, \<^verbatim>\<open>jwt.verify\<close>) is not
  part of the sources. Section 4.5: tokens are signed with a single shared secret and carry
  an expiry claim; verification fails closed on signature mismatch or expiry. The claims
  \<open>iat\<close> and \<open>exp\<close> count seconds; a token is expired once the clock has reached \<open>exp\<close>.
\<close>

definition jwt_sign :: "env \<Rightarrow> claims \<Rightarrow> string \<Rightarrow> int \<Rightarrow> int \<Rightarrow> string" where
  "jwt_sign env p secret expiresIn now =
     jwt_encode env
       \<lparr>payload = p, signed_with = secret, iat = now div 1000, exp = now div 1000 + expiresIn\<rparr>"

definition jwt_verify :: "env \<Rightarrow> string \<Rightarrow> string \<Rightarrow> int \<Rightarrow> jwt_error + claims" where
  "jwt_verify env token secret now =
     (case jwt_decode env token of
        None \<Rightarrow> Inl JsonWebTokenError
      | Some j \<Rightarrow>
          if signed_with j \<noteq> secret then Inl JsonWebTokenError
          else if exp j \<le> now div 1000 then Inl TokenExpiredError
          else Inr (payload j))"

text \<open>\<^verbatim>\<open>JWT_EXPIRES_IN = '8h'\<close> and \<^verbatim>\<open>expiresIn: '5m'\<close>, in seconds.\<close>

definition JWT_EXPIRES_IN :: int where
  "JWT_EXPIRES_IN = 8 * 60 * 60"

definition TEMP_EXPIRES_IN :: int where
  "TEMP_EXPIRES_IN = 5 * 60"

definition generateToken :: "env \<Rightarrow> int \<Rightarrow> string \<Rightarrow> string \<Rightarrow> string" where
  "generateToken env now uid mail =
     jwt_sign env \<lparr>userId = uid, email_claim = Some mail, role = Some ''admin'', temp = None\<rparr>
       (JWT_SECRET env) JWT_EXPIRES_IN now"

definition generateTempToken :: "env \<Rightarrow> int \<Rightarrow> string \<Rightarrow> string" where
  "generateTempToken env now uid =
     jwt_sign env \<lparr>userId = uid, email_claim = None, role = None, temp = Some True\<rparr>
       (JWT_SECRET env) TEMP_EXPIRES_IN now"

text \<open>
  The middleware \<^verbatim>\<open>authenticateToken\<close>: the token is the second part of the
  \<^verbatim>\<open>authorization\<close> header. \<open>Inl\<close> is the response that ends the request, \<open>Inr\<close> the
  decoded payload stored in \<^verbatim>\<open>req.user\<close> before \<^verbatim>\<open>next()\<close> runs the route.
\<close>

definition authenticateToken :: "env \<Rightarrow> int \<Rightarrow> string option \<Rightarrow> response + claims" where
  "authenticateToken env now authHeader =
     (let token = (case truthy authHeader of
                     None \<Rightarrow> None
                   | Some h \<Rightarrow> truthy (at_index (split_on CHR '' '' h) 1))
      in case token of
           None \<Rightarrow> Inl (json_response 401 [(''error'', JStr ''Access token required'')])
         | Some t \<Rightarrow>
             (case jwt_verify env t (JWT_SECRET env) now of
                Inl err \<Rightarrow> Inl (json_response 403 [(''error'', JStr ''Invalid or expired token'')])
              | Inr user \<Rightarrow> Inr user))"

text \<open>A route registered as \<^verbatim>\<open>router.get(path, authenticateToken, handler)\<close>.\<close>

definition guarded ::
  "env \<Rightarrow> int \<Rightarrow> string option \<Rightarrow> pool \<Rightarrow> (claims \<Rightarrow> response \<times> pool) \<Rightarrow> response \<times> pool" where
  "guarded env now authHeader p handler =
     (case authenticateToken env now authHeader of
        Inl r \<Rightarrow> (r, p)
      | Inr user \<Rightarrow> handler user)"

definition internal_server_error :: response where
  "internal_server_error = json_response 500 [(''error'', JStr ''Internal server error'')]"

definition user_json :: "admin_user \<Rightarrow> json" where
  "user_json u = JObj [(''id'', JStr (user_id u)), (''email'', JStr (email u)), (''name'', JStr (name u))]"

section \<open>POST /api/auth/login\<close>

text \<open>\<^verbatim>\<open>user.locked_until && new Date(user.locked_until) > new Date()\<close>\<close>

definition is_locked :: "admin_user \<Rightarrow> int \<Rightarrow> bool" where
  "is_locked u now = (case locked_until u of None \<Rightarrow> False | Some t \<Rightarrow> now < t)"

text \<open>\<^verbatim>\<open>(user.failed_login_attempts || 0)\<close>\<close>

definition or0 :: "int option \<Rightarrow> int" where
  "or0 v = (case v of None \<Rightarrow> 0 | Some n \<Rightarrow> n)"

text \<open>
  The handler after its \<^verbatim>\<open>SELECT\<close>: \<open>user\<close> is the row that the query returned, \<open>p\<close> the
  store that the later \<^verbatim>\<open>UPDATE\<close> statement acts on.
\<close>

definition login_user :: "env \<Rightarrow> int \<Rightarrow> pool \<Rightarrow> string \<Rightarrow> admin_user \<Rightarrow> response \<times> pool" where
  "login_user env now p password user =
     (if is_locked user now then
        (json_response 423
           [(''error'', JStr ''Account temporarily locked due to multiple failed attempts. Try again later.'')],
         p)
      else if \<not> bcrypt_compare env password (password_hash user) then
        (let failedAttempts = or0 (failed_login_attempts user) + 1;
             lockUntil = (if failedAttempts \<ge> 5 then Some (now + 15 * 60 * 1000) else None)
         in (json_response 401
               [(''error'', JStr ''Invalid email or password''),
                (''attemptsRemaining'', JNum (max 0 (5 - failedAttempts)))],
             update_where_id (user_id user)
               (\<lambda>u. u\<lparr>failed_login_attempts := Some failedAttempts, locked_until := lockUntil\<rparr>) p))
      else
        (let p' = update_where_id (user_id user)
                    (\<lambda>u. u\<lparr>failed_login_attempts := Some 0, locked_until := None,
                           last_login := Some now\<rparr>) p
         in if mfa_enabled user \<and> truthy (mfa_secret user) \<noteq> None then
              (json_response 200
                 [(''requiresMFA'', JBool True),
                  (''tempToken'', JStr (generateTempToken env now (user_id user)))],
               p')
            else
              (json_response 200
                 [(''token'', JStr (generateToken env now (user_id user) (email user))),
                  (''user'', user_json user)],
               p')))"

definition login :: "env \<Rightarrow> int \<Rightarrow> pool \<Rightarrow> string option \<Rightarrow> string option \<Rightarrow> response \<times> pool" where
  "login env now p email_in password_in =
     (case (truthy email_in, truthy password_in) of
        (Some e, Some password) \<Rightarrow>
          if \<not> reachable p then (internal_server_error, p)
          else (case find_by_email (toLowerCase e) p of
                  None \<Rightarrow> (json_response 401 [(''error'', JStr ''Invalid email or password'')], p)
                | Some user \<Rightarrow> login_user env now p password user)
      | _ \<Rightarrow> (json_response 400 [(''error'', JStr ''Email and password required'')], p))"

section \<open>POST /api/auth/verify-mfa\<close>

text \<open>\<^verbatim>\<open>jwt.verify(tempToken, JWT_SECRET)\<close> is called inside \<^verbatim>\<open>try\<close>: when it throws, the \<^verbatim>\<open>catch\<close> block answers.\<close>

definition verify_mfa :: "env \<Rightarrow> int \<Rightarrow> pool \<Rightarrow> string option \<Rightarrow> string option \<Rightarrow> response \<times> pool" where
  "verify_mfa env now p tempToken_in mfaCode_in =
     (case (truthy tempToken_in, truthy mfaCode_in) of
        (Some tempToken, Some mfaCode) \<Rightarrow>
          (case jwt_verify env tempToken (JWT_SECRET env) now of
             Inl err \<Rightarrow> (internal_server_error, p)
           | Inr decoded \<Rightarrow>
               if temp decoded \<noteq> Some True then
                 (json_response 401 [(''error'', JStr ''Invalid token'')], p)
               else if \<not> reachable p then (internal_server_error, p)
               else
                 (case find_by_id (userId decoded) p of
                    None \<Rightarrow> (json_response 401 [(''error'', JStr ''MFA not enabled for this user'')], p)
                  | Some user \<Rightarrow>
                      (case (if mfa_enabled user then truthy (mfa_secret user) else None) of
                         None \<Rightarrow>
                           (json_response 401 [(''error'', JStr ''MFA not enabled for this user'')], p)
                       | Some secret \<Rightarrow>
                           if \<not> totp_verify env secret mfaCode now then
                             (json_response 401 [(''error'', JStr ''Invalid MFA code'')], p)
                           else
                             (json_response 200
                                [(''token'', JStr (generateToken env now (user_id user) (email user))),
                                 (''user'', user_json user)],
                              p))))
      | _ \<Rightarrow> (json_response 400 [(''error'', JStr ''Temp token and MFA code required'')], p))"

section \<open>POST /api/auth/reset-password\<close>

text \<open>\<^verbatim>\<open>WHERE reset_token = $1 AND reset_token_expiry > NOW()\<close>\<close>

definition has_valid_reset_token :: "string \<Rightarrow> int \<Rightarrow> admin_user \<Rightarrow> bool" where
  "has_valid_reset_token tokenHash now u =
     (reset_token u = Some tokenHash \<and>
      (case reset_token_expiry u of None \<Rightarrow> False | Some t \<Rightarrow> now < t))"

definition reset_password :: "env \<Rightarrow> int \<Rightarrow> pool \<Rightarrow> string option \<Rightarrow> string option \<Rightarrow> response \<times> pool" where
  "reset_password env now p token_in newPassword_in =
     (case (truthy token_in, truthy newPassword_in) of
        (Some token, Some newPassword) \<Rightarrow>
          if length newPassword < 12 then
            (json_response 400 [(''error'', JStr ''Password must be at least 12 characters long'')], p)
          else if \<not> reachable p then (internal_server_error, p)
          else
            (let tokenHash = sha256 env token
             in case find (has_valid_reset_token tokenHash now) (admin_users p) of
                  None \<Rightarrow> (json_response 401 [(''error'', JStr ''Invalid or expired reset token'')], p)
                | Some user \<Rightarrow>
                    (let passwordHash = bcrypt_hash env newPassword
                     in (json_response 200 [(''message'', JStr ''Password reset successful'')],
                         update_where_id (user_id user)
                           (\<lambda>u. u\<lparr>password_hash := passwordHash, reset_token := None,
                                  reset_token_expiry := None, password_changed_at := Some now\<rparr>) p)))
      | _ \<Rightarrow> (json_response 400 [(''error'', JStr ''Token and new password required'')], p))"

section \<open>The routes behind authenticateToken\<close>

text \<open>
  GET /api/auth/setup-mfa. \<open>secret_base32\<close> is the secret that \<^verbatim>\<open>speakeasy.generateSecret\<close>
  returned and \<open>qrCodeUrl\<close> the data URL that \<^verbatim>\<open>QRCode.toDataURL\<close> made of it.
\<close>

definition setup_mfa_handler :: "string \<Rightarrow> string \<Rightarrow> pool \<Rightarrow> claims \<Rightarrow> response \<times> pool" where
  "setup_mfa_handler secret_base32 qrCodeUrl p user =
     (if \<not> reachable p then (internal_server_error, p)
      else (case find_by_id (userId user) p of
              None \<Rightarrow> (json_response 404 [(''error'', JStr ''User not found'')], p)
            | Some row \<Rightarrow>
                (json_response 200 [(''secret'', JStr secret_base32), (''qrCode'', JStr qrCodeUrl)],
                 update_where_id (userId user) (\<lambda>u. u\<lparr>mfa_secret_temp := Some secret_base32\<rparr>) p)))"

definition setup_mfa ::
  "env \<Rightarrow> int \<Rightarrow> string \<Rightarrow> string \<Rightarrow> pool \<Rightarrow> string option \<Rightarrow> response \<times> pool" where
  "setup_mfa env now secret_base32 qrCodeUrl p authHeader =
     guarded env now authHeader p (setup_mfa_handler secret_base32 qrCodeUrl p)"

text \<open>POST /api/auth/enable-mfa\<close>

definition enable_mfa_handler :: "env \<Rightarrow> int \<Rightarrow> pool \<Rightarrow> string option \<Rightarrow> claims \<Rightarrow> response \<times> pool" where
  "enable_mfa_handler env now p mfaCode_in user =
     (case truthy mfaCode_in of
        None \<Rightarrow> (json_response 400 [(''error'', JStr ''MFA code required'')], p)
      | Some mfaCode \<Rightarrow>
          if \<not> reachable p then (internal_server_error, p)
          else
            (case find_by_id (userId user) p of
               None \<Rightarrow> (json_response 400 [(''error'', JStr ''MFA setup not initiated'')], p)
             | Some row \<Rightarrow>
                 (case truthy (mfa_secret_temp row) of
                    None \<Rightarrow> (json_response 400 [(''error'', JStr ''MFA setup not initiated'')], p)
                  | Some secret \<Rightarrow>
                      if \<not> totp_verify env secret mfaCode now then
                        (json_response 401 [(''error'', JStr ''Invalid MFA code'')], p)
                      else
                        (json_response 200 [(''message'', JStr ''MFA enabled successfully'')],
                         update_where_id (userId user)
                           (\<lambda>u. u\<lparr>mfa_enabled := True, mfa_secret := mfa_secret_temp u,
                                  mfa_secret_temp := None\<rparr>) p))))"

definition enable_mfa ::
  "env \<Rightarrow> int \<Rightarrow> pool \<Rightarrow> string option \<Rightarrow> string option \<Rightarrow> response \<times> pool" where
  "enable_mfa env now p authHeader mfaCode_in =
     guarded env now authHeader p (enable_mfa_handler env now p mfaCode_in)"

text \<open>POST /api/auth/disable-mfa\<close>

definition disable_mfa_handler :: "env \<Rightarrow> pool \<Rightarrow> string option \<Rightarrow> claims \<Rightarrow> response \<times> pool" where
  "disable_mfa_handler env p password_in user =
     (case truthy password_in of
        None \<Rightarrow> (json_response 400 [(''error'', JStr ''Password required to disable MFA'')], p)
      | Some password \<Rightarrow>
          if \<not> reachable p then (internal_server_error, p)
          else
            (case find_by_id (userId user) p of
               None \<Rightarrow> (json_response 404 [(''error'', JStr ''User not found'')], p)
             | Some row \<Rightarrow>
                 if \<not> bcrypt_compare env password (password_hash row) then
                   (json_response 401 [(''error'', JStr ''Invalid password'')], p)
                 else
                   (json_response 200 [(''message'', JStr ''MFA disabled successfully'')],
                    update_where_id (userId user)
                      (\<lambda>u. u\<lparr>mfa_enabled := False, mfa_secret := None\<rparr>) p)))"

definition disable_mfa ::
  "env \<Rightarrow> int \<Rightarrow> pool \<Rightarrow> string option \<Rightarrow> string option \<Rightarrow> response \<times> pool" where
  "disable_mfa env now p authHeader password_in =
     guarded env now authHeader p (disable_mfa_handler env p password_in)"

text \<open>GET /api/auth/me\<close>

definition me_handler :: "pool \<Rightarrow> claims \<Rightarrow> response \<times> pool" where
  "me_handler p user =
     (if \<not> reachable p then (internal_server_error, p)
      else (case find_by_id (userId user) p of
              None \<Rightarrow> (json_response 404 [(''error'', JStr ''User not found'')], p)
            | Some row \<Rightarrow>
                (json_response 200
                   [(''user'', JObj [(''id'', JStr (user_id row)), (''email'', JStr (email row)),
                                     (''name'', JStr (name row)),
                                     (''mfa_enabled'', JBool (mfa_enabled row)),
                                     (''created_at'', json_time (created_at row)),
                                     (''last_login'', json_time (last_login row))])],
                 p)))"

definition me :: "env \<Rightarrow> int \<Rightarrow> pool \<Rightarrow> string option \<Rightarrow> response \<times> pool" where
  "me env now p authHeader = guarded env now authHeader p (me_handler p)"

section \<open>The verify callback of the Google strategy\<close>

text \<open>
  \<^verbatim>\<open>done(new Error(message), undefined)\<close>, \<^verbatim>\<open>done(error)\<close> from the \<^verbatim>\<open>catch\<close> block, and
  \<^verbatim>\<open>done(null, user)\<close>.
\<close>

datatype done_result = DoneError string | DoneThrown | DoneUser admin_user

definition allowedEmails :: "env \<Rightarrow> string list" where
  "allowedEmails env =
     (case GOOGLE_ALLOWED_EMAILS env of
        None \<Rightarrow> []
      | Some s \<Rightarrow> map (\<lambda>e. toLowerCase (trim e)) (split_on CHR '','' s))"

text \<open>\<^verbatim>\<open>profile.displayName || email.split('@')[0]\<close>\<close>

definition display_name :: "string option \<Rightarrow> string \<Rightarrow> string" where
  "display_name displayName mail =
     (case truthy displayName of
        Some d \<Rightarrow> d
      | None \<Rightarrow> (case split_on CHR ''@'' mail of [] \<Rightarrow> [] | w # ws \<Rightarrow> w))"

text \<open>
  \<open>profile_email\<close> is \<^verbatim>\<open>profile.emails?.[0]?.value\<close>; \<open>newId\<close> and \<open>randomPassword\<close> are the
  hexadecimal strings drawn from \<^verbatim>\<open>crypto.randomBytes\<close> for a new account.
\<close>

definition google_verify ::
  "env \<Rightarrow> int \<Rightarrow> pool \<Rightarrow> string option \<Rightarrow> string option \<Rightarrow> string \<Rightarrow> string \<Rightarrow> done_result \<times> pool" where
  "google_verify env now p profile_email displayName newId randomPassword =
     (case truthy profile_email of
        None \<Rightarrow> (DoneError ''No email found in Google profile'', p)
      | Some mail \<Rightarrow>
          if length (allowedEmails env) = 0 then
            (DoneError ''Google OAuth whitelist not configured'', p)
          else if toLowerCase mail \<notin> set (allowedEmails env) then
            (DoneError ''This Google account is not authorized to access MediFlow AI'', p)
          else if \<not> reachable p then (DoneThrown, p)
          else
            (case find_by_email (toLowerCase mail) p of
               None \<Rightarrow>
                 (let userCount = int (length (admin_users p))
                  in if userCount \<ge> 5 then
                       (DoneError ''Maximum number of admin accounts reached'', p)
                     else
                       (let row = (column_defaults env)
                                    \<lparr>user_id := newId, email := toLowerCase mail,
                                     name := display_name displayName mail,
                                     password_hash := bcrypt_hash env randomPassword,
                                     mfa_enabled := False, created_at := Some now,
                                     last_login := Some now\<rparr>
                        in (DoneUser row, p\<lparr>admin_users := admin_users p @ [row]\<rparr>)))
             | Some user \<Rightarrow>
                 (DoneUser user,
                  update_where_id (user_id user) (\<lambda>u. u\<lparr>last_login := Some now\<rparr>) p)))"

section \<open>Two requests in flight\<close>

text \<open>
  The login handler awaits between its \<^verbatim>\<open>SELECT\<close> and its \<^verbatim>\<open>UPDATE\<close>, so a second request
  for the same email can run its \<^verbatim>\<open>SELECT\<close> before the first one writes. Both requests then
  hold the same row; the statements \<^verbatim>\<open>UPDATE\<close> run one after the other, at the times \<open>t1\<close>
  and \<open>t2\<close>. The result is the two responses, the store between the two writes and the
  store after them.
\<close>

definition concurrent_logins ::
  "env \<Rightarrow> int \<Rightarrow> int \<Rightarrow> pool \<Rightarrow> string \<Rightarrow> string \<Rightarrow> string \<Rightarrow> (response \<times> response \<times> pool \<times> pool) option" where
  "concurrent_logins env t1 t2 p e password1 password2 =
     (case find_by_email (toLowerCase e) p of
        None \<Rightarrow> None
      | Some user \<Rightarrow>
          (let (r1, p1) = login_user env t1 p password1 user;
               (r2, p2) = login_user env t2 p1 password2 user
           in Some (r1, r2, p1, p2)))"

text \<open>
  Section 5 of the specification asks for a storage-level atomic increment-and-compare of
  the failed counter and the lockout expiry, keyed by account id. This definition follows
  those words, for comparison with what \<open>login_user\<close> writes: the new counter is computed
  from the stored row, not from a row read earlier.
\<close>

definition spec_atomic_increment :: "int \<Rightarrow> string \<Rightarrow> pool \<Rightarrow> pool" where
  "spec_atomic_increment now i p =
     update_where_id i
       (\<lambda>u. u\<lparr>failed_login_attempts := Some (or0 (failed_login_attempts u) + 1),
              locked_until := (if or0 (failed_login_attempts u) + 1 \<ge> 5
                               then Some (now + 15 * 60 * 1000) else locked_until u)\<rparr>) p"

section \<open>An example configuration\<close>

text \<open>
  Stand-ins for the libraries, simple enough to evaluate: a password hash is the password
  behind a \<open>#\<close>, a one-time code is valid when it spells the secret backwards, and the
  token parser knows the two tokens issued to account \<open>u1\<close> at second 1000.
\<close>

definition example_defaults :: admin_user where
  "example_defaults =
     \<lparr>user_id = [], email = [], name = [], password_hash = [], mfa_enabled = False,
      mfa_secret = None, mfa_secret_temp = None, failed_login_attempts = Some 0,
      locked_until = None, reset_token = None, reset_token_expiry = None,
      created_at = None, last_login = None, password_changed_at = None\<rparr>"

definition example_temp_jwt :: jwt where
  "example_temp_jwt =
     \<lparr>payload = \<lparr>userId = ''u1'', email_claim = None, role = None, temp = Some True\<rparr>,
      signed_with = ''example-secret'', iat = 1000, exp = 1300\<rparr>"

definition example_session_jwt :: jwt where
  "example_session_jwt =
     \<lparr>payload = \<lparr>userId = ''u1'', email_claim = Some ''admin@clinic.org'',
                 role = Some ''admin'', temp = None\<rparr>,
      signed_with = ''example-secret'', iat = 1000, exp = 29800\<rparr>"

definition example_env :: env where
  "example_env =
     \<lparr>JWT_SECRET = ''example-secret'',
      GOOGLE_ALLOWED_EMAILS = Some ''Admin@Clinic.org, doc@clinic.org'',
      bcrypt_compare = (\<lambda>password hash. hash = CHR ''#'' # password),
      bcrypt_hash = (\<lambda>password. CHR ''#'' # password),
      totp_verify = (\<lambda>secret code now. code = rev secret),
      sha256 = (\<lambda>s. CHR ''h'' # s),
      jwt_encode = (\<lambda>j. (if temp (payload j) = Some True then ''temp.'' else ''full.'') @ userId (payload j)),
      jwt_decode = (\<lambda>s. if s = ''temp.u1'' then Some example_temp_jwt
                          else if s = ''full.u1'' then Some example_session_jwt else None),
      column_defaults = example_defaults\<rparr>"

definition example_user :: admin_user where
  "example_user =
     \<lparr>user_id = ''u1'', email = ''admin@clinic.org'', name = ''Admin'',
      password_hash = ''#correct horse'', mfa_enabled = True, mfa_secret = Some ''ABC'',
      mfa_secret_temp = None, failed_login_attempts = Some 4, locked_until = None,
      reset_token = Some ''hr1'', reset_token_expiry = Some 4000000,
      created_at = Some 0, last_login = None, password_changed_at = None\<rparr>"

definition example_pool :: pool where
  "example_pool = \<lparr>admin_users = [example_user], reachable = True\<rparr>"

definition pool_of :: "admin_user \<Rightarrow> pool" where
  "pool_of u = \<lparr>admin_users = [u], reachable = True\<rparr>"

text \<open>A table that holds five accounts.\<close>

definition example_full_pool :: pool where
  "example_full_pool =
     \<lparr>admin_users =
        [example_user,
         example_user\<lparr>user_id := ''u2'', email := ''b@clinic.org''\<rparr>,
         example_user\<lparr>user_id := ''u3'', email := ''c@clinic.org''\<rparr>,
         example_user\<lparr>user_id := ''u4'', email := ''d@clinic.org''\<rparr>,
         example_user\<lparr>user_id := ''u5'', email := ''e@clinic.org''\<rparr>],
      reachable = True\<rparr>"

section \<open>Lookups after an update\<close>

lemma find_map_preserved:
  "find P xs = Some u \<Longrightarrow> (\<And>x. P (g x) = P x) \<Longrightarrow> find P (map g xs) = Some (g u)"
  by (induction xs) (auto split: if_splits)

lemma find_by_email_update:
  assumes "find_by_email e p = Some u" and "\<And>x. email (f x) = email x"
  shows "find_by_email e (update_where_id i f p) = Some (if user_id u = i then f u else u)"
proof -
  have "find (\<lambda>u. email u = e) (map (\<lambda>u. if user_id u = i then f u else u) (admin_users p))
        = Some ((\<lambda>u. if user_id u = i then f u else u) u)"
    using assms by (intro find_map_preserved) (auto simp: find_by_email_def)
  then show ?thesis by (simp add: find_by_email_def update_where_id_def)
qed

lemma find_by_id_update:
  assumes "find_by_id j p = Some u" and "\<And>x. user_id (f x) = user_id x"
  shows "find_by_id j (update_where_id i f p) = Some (if user_id u = i then f u else u)"
proof -
  have "find (\<lambda>u. user_id u = j) (map (\<lambda>u. if user_id u = i then f u else u) (admin_users p))
        = Some ((\<lambda>u. if user_id u = i then f u else u) u)"
    using assms by (intro find_map_preserved) (auto simp: find_by_id_def)
  then show ?thesis by (simp add: find_by_id_def update_where_id_def)
qed

lemma find_by_id_user_id: "find_by_id i p = Some u \<Longrightarrow> user_id u = i"
  by (auto simp: find_by_id_def find_Some_iff)

lemma login_found:
  assumes "truthy email_in = Some e" and "truthy password_in = Some pw" and "reachable p"
    and "find_by_email (toLowerCase e) p = Some user"
  shows "login env now p email_in password_in = login_user env now p pw user"
  using assms by (simp add: login_def)


section \<open>Login with a wrong password\<close>

text \<open>
  C4: for a login with a registered account that is not locked and a wrong password, the
  failed counter of the account is the counter read plus one; the lockout expiry is
  \<open>now\<close> plus 15 minutes when the new counter is at least 5 and is unset otherwise; and the
  response is the status 401 with \<open>attemptsRemaining = max 0 (5 - counter)\<close>. At counter 4
  the account ends with counter 5, the lockout set and \<open>attemptsRemaining = 0\<close>.
\<close>

theorem login_wrong_password:
  assumes "truthy email_in = Some e" and "truthy password_in = Some pw" and "reachable p"
    and "find_by_email (toLowerCase e) p = Some user"
    and "\<not> is_locked user now"
    and "\<not> bcrypt_compare env pw (password_hash user)"
  shows "fst (login env now p email_in password_in) =
           json_response 401
             [(''error'', JStr ''Invalid email or password''),
              (''attemptsRemaining'', JNum (max 0 (5 - (or0 (failed_login_attempts user) + 1))))]
         \<and> map_option failed_login_attempts
             (find_by_email (toLowerCase e) (snd (login env now p email_in password_in)))
           = Some (Some (or0 (failed_login_attempts user) + 1))
         \<and> map_option locked_until
             (find_by_email (toLowerCase e) (snd (login env now p email_in password_in)))
           = Some (if or0 (failed_login_attempts user) + 1 \<ge> 5
                   then Some (now + 15 * 60 * 1000) else None)"
proof -
  let ?n = "or0 (failed_login_attempts user) + 1"
  let ?f = "\<lambda>u. u\<lparr>failed_login_attempts := Some ?n,
                   locked_until := (if ?n \<ge> 5 then Some (now + 15 * 60 * 1000) else None)\<rparr>"
  have run: "login env now p email_in password_in =
      (json_response 401
         [(''error'', JStr ''Invalid email or password''),
          (''attemptsRemaining'', JNum (max 0 (5 - ?n)))],
       update_where_id (user_id user) ?f p)"
    using assms by (simp add: login_found login_user_def Let_def)
  have "find_by_email (toLowerCase e) (update_where_id (user_id user) ?f p) = Some (?f user)"
    using find_by_email_update [OF assms(4), of ?f "user_id user"] by simp
  with run show ?thesis by simp
qed

theorem login_wrong_password_witness:
  "truthy (Some ''Admin@Clinic.org'') = Some ''Admin@Clinic.org''
   \<and> find_by_email (toLowerCase ''Admin@Clinic.org'') example_pool = Some example_user
   \<and> failed_login_attempts example_user = Some 4
   \<and> \<not> is_locked example_user 1000000
   \<and> \<not> bcrypt_compare example_env ''wrong'' (password_hash example_user)
   \<and> fst (login example_env 1000000 example_pool (Some ''Admin@Clinic.org'') (Some ''wrong'')) =
       json_response 401
         [(''error'', JStr ''Invalid email or password''), (''attemptsRemaining'', JNum 0)]
   \<and> map_option failed_login_attempts
        (find_by_email (toLowerCase ''Admin@Clinic.org'')
          (snd (login example_env 1000000 example_pool (Some ''Admin@Clinic.org'') (Some ''wrong''))))
      = Some (Some 5)
   \<and> map_option locked_until
        (find_by_email (toLowerCase ''Admin@Clinic.org'')
          (snd (login example_env 1000000 example_pool (Some ''Admin@Clinic.org'') (Some ''wrong''))))
      = Some (Some 1900000)"
proof -
  have h1: "truthy (Some ''Admin@Clinic.org'') = Some ''Admin@Clinic.org''"
    by (simp add: truthy_def)
  have h2: "truthy (Some ''wrong'') = Some ''wrong''"
    by (simp add: truthy_def)
  have h3: "reachable example_pool"
    by (simp add: example_pool_def)
  have h4: "find_by_email (toLowerCase ''Admin@Clinic.org'') example_pool = Some example_user"
    by code_simp
  have h5: "\<not> is_locked example_user 1000000"
    by (simp add: is_locked_def example_user_def)
  have h6: "\<not> bcrypt_compare example_env ''wrong'' (password_hash example_user)"
    by (simp add: example_env_def example_user_def)
  have c: "failed_login_attempts example_user = Some 4"
    by (simp add: example_user_def)
  show ?thesis
    using login_wrong_password [OF h1 h2 h3 h4 h5 h6] h1 h4 h5 h6 c
    by (simp add: or0_def)
qed

section \<open>Login against a locked account\<close>

text \<open>
  C5: for a login against an account whose lockout expiry is set and in the future, the
  outcome is the locked response (status 423) whatever the submitted password, the store is
  left as it was, and the response carries neither a session token nor a temporary token.
\<close>

theorem login_locked:
  assumes "truthy email_in = Some e" and "truthy password_in = Some pw" and "reachable p"
    and "find_by_email (toLowerCase e) p = Some user"
    and "is_locked user now"
  shows "login env now p email_in password_in =
           (json_response 423
              [(''error'', JStr ''Account temporarily locked due to multiple failed attempts. Try again later.'')],
            p)
         \<and> \<not> has_field (fst (login env now p email_in password_in)) ''token''
         \<and> \<not> has_field (fst (login env now p email_in password_in)) ''tempToken''"
  using assms by (simp add: login_found login_user_def has_field_def json_response_def)

text \<open>The locked account of the example, with its correct password.\<close>

theorem login_locked_witness:
  "is_locked (example_user\<lparr>locked_until := Some 1900000\<rparr>) 1000000
   \<and> bcrypt_compare example_env ''correct horse'' (password_hash (example_user\<lparr>locked_until := Some 1900000\<rparr>))
   \<and> login example_env 1000000 (pool_of (example_user\<lparr>locked_until := Some 1900000\<rparr>))
        (Some ''admin@clinic.org'') (Some ''correct horse'') =
       (json_response 423
          [(''error'', JStr ''Account temporarily locked due to multiple failed attempts. Try again later.'')],
        pool_of (example_user\<lparr>locked_until := Some 1900000\<rparr>))
   \<and> \<not> has_field (fst (login example_env 1000000 (pool_of (example_user\<lparr>locked_until := Some 1900000\<rparr>))
        (Some ''admin@clinic.org'') (Some ''correct horse''))) ''token''
   \<and> \<not> has_field (fst (login example_env 1000000 (pool_of (example_user\<lparr>locked_until := Some 1900000\<rparr>))
        (Some ''admin@clinic.org'') (Some ''correct horse''))) ''tempToken''"
proof -
  let ?u = "example_user\<lparr>locked_until := Some 1900000\<rparr>"
  have h1: "truthy (Some ''admin@clinic.org'') = Some ''admin@clinic.org''"
    by (simp add: truthy_def)
  have h2: "truthy (Some ''correct horse'') = Some ''correct horse''"
    by (simp add: truthy_def)
  have h3: "reachable (pool_of ?u)"
    by (simp add: pool_of_def)
  have h4: "find_by_email (toLowerCase ''admin@clinic.org'') (pool_of ?u) = Some ?u"
    by code_simp
  have h5: "is_locked ?u 1000000"
    by (simp add: is_locked_def)
  have c: "bcrypt_compare example_env ''correct horse'' (password_hash ?u)"
    by (simp add: example_env_def example_user_def)
  show ?thesis
    using login_locked [OF h1 h2 h3 h4 h5, of example_env] h5 c
    by (simp add: has_field_def json_response_def)
qed

section \<open>Login with the MFA flag set and no secret\<close>

text \<open>
  C10: when an account has \<open>mfa_enabled\<close> set and no stored \<open>mfa_secret\<close>, a login with
  the correct password answers at once with a full session token and does not ask for MFA:
  the branch tests the flag and the secret together. The body has the fields \<open>token\<close> and
  \<open>user\<close> only; the token is the serialisation of the payload with the account's id, its
  email and the role \<open>admin\<close>, without \<open>temp\<close>, signed with \<open>JWT_SECRET\<close> and expiring
  8 hours after its issue; and where the parser reads that token back, \<open>jwt.verify\<close>
  returns this payload from the issue until the expiry.
\<close>

theorem login_mfa_enabled_without_secret:
  assumes "truthy email_in = Some e" and "truthy password_in = Some pw" and "reachable p"
    and "find_by_email (toLowerCase e) p = Some user"
    and "\<not> is_locked user now"
    and "bcrypt_compare env pw (password_hash user)"
    and "mfa_enabled user" and "mfa_secret user = None"
  shows "fst (login env now p email_in password_in) =
           \<lparr>status = 200,
            body =
              [(''token'',
                JStr (jwt_encode env
                        \<lparr>payload = \<lparr>userId = user_id user, email_claim = Some (email user),
                                    role = Some ''admin'', temp = None\<rparr>,
                         signed_with = JWT_SECRET env,
                         iat = now div 1000, exp = now div 1000 + 8 * 60 * 60\<rparr>)),
               (''user'',
                JObj [(''id'', JStr (user_id user)), (''email'', JStr (email user)),
                      (''name'', JStr (name user))])]\<rparr>
         \<and> \<not> has_field (fst (login env now p email_in password_in)) ''requiresMFA''
         \<and> \<not> has_field (fst (login env now p email_in password_in)) ''tempToken''
         \<and> (\<forall>later.
               jwt_decode env
                 (jwt_encode env
                    \<lparr>payload = \<lparr>userId = user_id user, email_claim = Some (email user),
                                role = Some ''admin'', temp = None\<rparr>,
                     signed_with = JWT_SECRET env,
                     iat = now div 1000, exp = now div 1000 + 8 * 60 * 60\<rparr>)
               = Some \<lparr>payload = \<lparr>userId = user_id user, email_claim = Some (email user),
                                   role = Some ''admin'', temp = None\<rparr>,
                        signed_with = JWT_SECRET env,
                        iat = now div 1000, exp = now div 1000 + 8 * 60 * 60\<rparr>
               \<and> later div 1000 < now div 1000 + 8 * 60 * 60
             \<longrightarrow> jwt_verify env
                   (jwt_encode env
                      \<lparr>payload = \<lparr>userId = user_id user, email_claim = Some (email user),
                                  role = Some ''admin'', temp = None\<rparr>,
                       signed_with = JWT_SECRET env,
                       iat = now div 1000, exp = now div 1000 + 8 * 60 * 60\<rparr>)
                   (JWT_SECRET env) later
                 = Inr \<lparr>userId = user_id user, email_claim = Some (email user),
                        role = Some ''admin'', temp = None\<rparr>)"
proof (intro conjI allI impI)
  show r: "fst (login env now p email_in password_in) =
           \<lparr>status = 200,
            body =
              [(''token'',
                JStr (jwt_encode env
                        \<lparr>payload = \<lparr>userId = user_id user, email_claim = Some (email user),
                                    role = Some ''admin'', temp = None\<rparr>,
                         signed_with = JWT_SECRET env,
                         iat = now div 1000, exp = now div 1000 + 8 * 60 * 60\<rparr>)),
               (''user'',
                JObj [(''id'', JStr (user_id user)), (''email'', JStr (email user)),
                      (''name'', JStr (name user))])]\<rparr>"
    using assms
    by (simp add: login_found login_user_def json_response_def truthy_def Let_def
        generateToken_def jwt_sign_def JWT_EXPIRES_IN_def user_json_def)
  show "\<not> has_field (fst (login env now p email_in password_in)) ''requiresMFA''"
    unfolding r by (simp add: has_field_def)
  show "\<not> has_field (fst (login env now p email_in password_in)) ''tempToken''"
    unfolding r by (simp add: has_field_def)
next
  fix later
  assume "jwt_decode env
                 (jwt_encode env
                    \<lparr>payload = \<lparr>userId = user_id user, email_claim = Some (email user),
                                role = Some ''admin'', temp = None\<rparr>,
                     signed_with = JWT_SECRET env,
                     iat = now div 1000, exp = now div 1000 + 8 * 60 * 60\<rparr>)
               = Some \<lparr>payload = \<lparr>userId = user_id user, email_claim = Some (email user),
                                   role = Some ''admin'', temp = None\<rparr>,
                        signed_with = JWT_SECRET env,
                        iat = now div 1000, exp = now div 1000 + 8 * 60 * 60\<rparr>
               \<and> later div 1000 < now div 1000 + 8 * 60 * 60"
  then show "jwt_verify env
                   (jwt_encode env
                      \<lparr>payload = \<lparr>userId = user_id user, email_claim = Some (email user),
                                  role = Some ''admin'', temp = None\<rparr>,
                       signed_with = JWT_SECRET env,
                       iat = now div 1000, exp = now div 1000 + 8 * 60 * 60\<rparr>)
                   (JWT_SECRET env) later
                 = Inr \<lparr>userId = user_id user, email_claim = Some (email user),
                        role = Some ''admin'', temp = None\<rparr>"
    by (simp add: jwt_verify_def)
qed

text \<open>
  The account of the example with its secret removed: the token issued at second 1000 is
  the session token of the example, which expires at second 29800 and is read back as
  such one second before.
\<close>

theorem login_mfa_enabled_without_secret_witness:
  "mfa_enabled (example_user\<lparr>mfa_secret := None\<rparr>)
   \<and> mfa_secret (example_user\<lparr>mfa_secret := None\<rparr>) = None
   \<and> bcrypt_compare example_env ''correct horse'' (password_hash (example_user\<lparr>mfa_secret := None\<rparr>))
   \<and> jwt_encode example_env example_session_jwt = ''full.u1''
   \<and> jwt_decode example_env ''full.u1'' = Some example_session_jwt
   \<and> fst (login example_env 1000000 (pool_of (example_user\<lparr>mfa_secret := None\<rparr>))
        (Some ''admin@clinic.org'') (Some ''correct horse'')) =
       \<lparr>status = 200,
        body =
          [(''token'', JStr ''full.u1''),
           (''user'', JObj [(''id'', JStr ''u1''), (''email'', JStr ''admin@clinic.org''),
                            (''name'', JStr ''Admin'')])]\<rparr>
   \<and> \<not> has_field (fst (login example_env 1000000 (pool_of (example_user\<lparr>mfa_secret := None\<rparr>))
        (Some ''admin@clinic.org'') (Some ''correct horse''))) ''requiresMFA''
   \<and> jwt_verify example_env ''full.u1'' (JWT_SECRET example_env) 29799000
      = Inr \<lparr>userId = ''u1'', email_claim = Some ''admin@clinic.org'',
             role = Some ''admin'', temp = None\<rparr>"
proof -
  let ?u = "example_user\<lparr>mfa_secret := None\<rparr>"
  have h1: "truthy (Some ''admin@clinic.org'') = Some ''admin@clinic.org''"
    by (simp add: truthy_def)
  have h2: "truthy (Some ''correct horse'') = Some ''correct horse''"
    by (simp add: truthy_def)
  have h3: "reachable (pool_of ?u)"
    by (simp add: pool_of_def)
  have h4: "find_by_email (toLowerCase ''admin@clinic.org'') (pool_of ?u) = Some ?u"
    by code_simp
  have h5: "\<not> is_locked ?u 1000000"
    by (simp add: is_locked_def example_user_def)
  have h6: "bcrypt_compare example_env ''correct horse'' (password_hash ?u)"
    by (simp add: example_env_def example_user_def)
  have h7: "mfa_enabled ?u"
    by (simp add: example_user_def)
  have h8: "mfa_secret ?u = None"
    by simp
  have issued: "\<lparr>payload = \<lparr>userId = user_id ?u, email_claim = Some (email ?u),
                              role = Some ''admin'', temp = None\<rparr>,
                  signed_with = JWT_SECRET example_env,
                  iat = 1000000 div 1000, exp = 1000000 div 1000 + 8 * 60 * 60\<rparr>
                = example_session_jwt"
    by (simp add: example_session_jwt_def example_user_def example_env_def)
  have enc: "jwt_encode example_env example_session_jwt = ''full.u1''"
    by (simp add: example_env_def example_session_jwt_def)
  have dec: "jwt_decode example_env ''full.u1'' = Some example_session_jwt"
    by (simp add: example_env_def)
  have fields: "user_id ?u = ''u1''" "email ?u = ''admin@clinic.org''" "name ?u = ''Admin''"
    by (simp_all add: example_user_def)
  note inst = login_mfa_enabled_without_secret [OF h1 h2 h3 h4 h5 h6 h7 h8, unfolded issued enc]
  have r: "fst (login example_env 1000000 (pool_of ?u) (Some ''admin@clinic.org'') (Some ''correct horse'')) =
       \<lparr>status = 200,
        body =
          [(''token'', JStr ''full.u1''),
           (''user'', JObj [(''id'', JStr ''u1''), (''email'', JStr ''admin@clinic.org''),
                            (''name'', JStr ''Admin'')])]\<rparr>"
    using conjunct1 [OF inst] unfolding fields .
  have nomfa: "\<not> has_field (fst (login example_env 1000000 (pool_of ?u)
        (Some ''admin@clinic.org'') (Some ''correct horse''))) ''requiresMFA''"
    using conjunct1 [OF conjunct2 [OF inst]] .
  have "dec_ok": "jwt_decode example_env ''full.u1'' = Some example_session_jwt
                  \<and> (29799000::int) div 1000 < 1000000 div 1000 + 8 * 60 * 60"
    using dec by simp
  have v: "jwt_verify example_env ''full.u1'' (JWT_SECRET example_env) 29799000
      = Inr \<lparr>userId = ''u1'', email_claim = Some ''admin@clinic.org'',
             role = Some ''admin'', temp = None\<rparr>"
    using conjunct2 [OF conjunct2 [OF conjunct2 [OF inst]], rule_format, of 29799000] dec_ok
    unfolding fields by simp
  show ?thesis
    using h7 h8 h6 enc dec r nomfa v by (intro conjI)
qed

section \<open>The failed counter after a success\<close>

lemma reset_password_keeps_counters:
  "map failed_login_attempts (admin_users (snd (reset_password env now p token_in newPassword_in)))
   = map failed_login_attempts (admin_users p)"
  by (simp add: reset_password_def update_where_id_def Let_def
      split: option.splits prod.splits)

lemma reset_password_success:
  assumes "status (fst (reset_password env now p token_in newPassword_in)) = 200"
  shows "\<exists>token newPassword user.
           truthy token_in = Some token \<and> truthy newPassword_in = Some newPassword
           \<and> find (has_valid_reset_token (sha256 env token) now) (admin_users p) = Some user
           \<and> snd (reset_password env now p token_in newPassword_in)
             = p\<lparr>admin_users :=
                   map (\<lambda>u. if user_id u = user_id user
                            then u\<lparr>password_hash := bcrypt_hash env newPassword,
                                   reset_token := None, reset_token_expiry := None,
                                   password_changed_at := Some now\<rparr>
                            else u)
                     (admin_users p)\<rparr>"
proof (cases "truthy token_in")
  case None
  then show ?thesis
    using assms by (simp add: reset_password_def json_response_def)
next
  case token: (Some token)
  show ?thesis
  proof (cases "truthy newPassword_in")
    case None
    then show ?thesis
      using assms token by (simp add: reset_password_def json_response_def)
  next
    case np: (Some newPassword)
    show ?thesis
    proof (cases "find (has_valid_reset_token (sha256 env token) now) (admin_users p)")
      case None
      then show ?thesis
        using assms token np
        by (simp add: reset_password_def json_response_def internal_server_error_def
            split: if_splits)
    next
      case (Some user)
      then show ?thesis
        using assms token np
        by (simp add: reset_password_def json_response_def internal_server_error_def
            update_where_id_def split: if_splits)
    qed
  qed
qed

text \<open>
  C3, amended: the failed-login counter of the account is zero immediately after a
  successful password check in login. A successfully completed password reset (status 200)
  leaves the failed-login counter of every account as it was: in the rows with the id of
  the account that holds the token it rewrites \<open>password_hash\<close> to the hash of the new
  password, \<open>reset_token\<close> and \<open>reset_token_expiry\<close> to null and \<open>password_changed_at\<close> to
  \<open>now\<close>, and it rewrites nothing else.
\<close>

theorem failed_counter_after_success:
  "(truthy email_in = Some e \<and> truthy password_in = Some pw \<and> reachable p
      \<and> find_by_email (toLowerCase e) p = Some user \<and> \<not> is_locked user now
      \<and> bcrypt_compare env pw (password_hash user)
    \<longrightarrow> map_option failed_login_attempts
          (find_by_email (toLowerCase e) (snd (login env now p email_in password_in)))
        = Some (Some 0))
   \<and> (status (fst (reset_password env now p token_in newPassword_in)) = 200
    \<longrightarrow> map failed_login_attempts
          (admin_users (snd (reset_password env now p token_in newPassword_in)))
        = map failed_login_attempts (admin_users p)
      \<and> (\<exists>token newPassword holder.
           truthy token_in = Some token \<and> truthy newPassword_in = Some newPassword
           \<and> find (has_valid_reset_token (sha256 env token) now) (admin_users p) = Some holder
           \<and> snd (reset_password env now p token_in newPassword_in)
             = p\<lparr>admin_users :=
                   map (\<lambda>u. if user_id u = user_id holder
                            then u\<lparr>password_hash := bcrypt_hash env newPassword,
                                   reset_token := None, reset_token_expiry := None,
                                   password_changed_at := Some now\<rparr>
                            else u)
                     (admin_users p)\<rparr>))"
proof (intro conjI impI)
  assume a: "truthy email_in = Some e \<and> truthy password_in = Some pw \<and> reachable p
      \<and> find_by_email (toLowerCase e) p = Some user \<and> \<not> is_locked user now
      \<and> bcrypt_compare env pw (password_hash user)"
  let ?f = "\<lambda>u. u\<lparr>failed_login_attempts := Some 0, locked_until := None, last_login := Some now\<rparr>"
  have found: "find_by_email (toLowerCase e) p = Some user"
    using a by simp
  have "snd (login env now p email_in password_in) = update_where_id (user_id user) ?f p"
    using a by (simp add: login_found login_user_def Let_def)
  moreover have "find_by_email (toLowerCase e) (update_where_id (user_id user) ?f p) = Some (?f user)"
    using find_by_email_update [OF found, of ?f "user_id user"] by simp
  ultimately show "map_option failed_login_attempts
          (find_by_email (toLowerCase e) (snd (login env now p email_in password_in)))
        = Some (Some 0)"
    by simp
next
  show "map failed_login_attempts
          (admin_users (snd (reset_password env now p token_in newPassword_in)))
        = map failed_login_attempts (admin_users p)"
    by (rule reset_password_keeps_counters)
next
  assume "status (fst (reset_password env now p token_in newPassword_in)) = 200"
  then show "\<exists>token newPassword holder.
           truthy token_in = Some token \<and> truthy newPassword_in = Some newPassword
           \<and> find (has_valid_reset_token (sha256 env token) now) (admin_users p) = Some holder
           \<and> snd (reset_password env now p token_in newPassword_in)
             = p\<lparr>admin_users :=
                   map (\<lambda>u. if user_id u = user_id holder
                            then u\<lparr>password_hash := bcrypt_hash env newPassword,
                                   reset_token := None, reset_token_expiry := None,
                                   password_changed_at := Some now\<rparr>
                            else u)
                     (admin_users p)\<rparr>"
    by (rule reset_password_success)
qed

text \<open>
  A correct password for the account of the example, whose counter is 4, and a reset of
  its password with the token \<open>r1\<close>.
\<close>

theorem failed_counter_after_success_witness:
  "failed_login_attempts example_user = Some 4
   \<and> bcrypt_compare example_env ''correct horse'' (password_hash example_user)
   \<and> map_option failed_login_attempts
        (find_by_email (toLowerCase ''admin@clinic.org'')
           (snd (login example_env 1000000 example_pool (Some ''admin@clinic.org'') (Some ''correct horse''))))
      = Some (Some 0)
   \<and> status (fst (reset_password example_env 1000000 example_pool (Some ''r1'') (Some ''a new password''))) = 200
   \<and> map failed_login_attempts
        (admin_users (snd (reset_password example_env 1000000 example_pool (Some ''r1'') (Some ''a new password''))))
      = [Some 4]
   \<and> snd (reset_password example_env 1000000 example_pool (Some ''r1'') (Some ''a new password''))
      = pool_of (example_user\<lparr>password_hash := ''#a new password'', reset_token := None,
                              reset_token_expiry := None, password_changed_at := Some 1000000\<rparr>)"
proof -
  have h1: "truthy (Some ''admin@clinic.org'') = Some ''admin@clinic.org''"
    by (simp add: truthy_def)
  have h2: "truthy (Some ''correct horse'') = Some ''correct horse''"
    by (simp add: truthy_def)
  have h3: "reachable example_pool"
    by (simp add: example_pool_def)
  have h4: "find_by_email (toLowerCase ''admin@clinic.org'') example_pool = Some example_user"
    by code_simp
  have h5: "\<not> is_locked example_user 1000000"
    by (simp add: is_locked_def example_user_def)
  have h6: "bcrypt_compare example_env ''correct horse'' (password_hash example_user)"
    by (simp add: example_env_def example_user_def)
  have h7: "status (fst (reset_password example_env 1000000 example_pool (Some ''r1'') (Some ''a new password''))) = 200"
    by (simp add: reset_password_def truthy_def example_pool_def example_env_def example_user_def
        has_valid_reset_token_def json_response_def)
  have c: "map failed_login_attempts (admin_users example_pool) = [Some 4]"
    by (simp add: example_pool_def example_user_def)
  have c': "failed_login_attempts example_user = Some 4"
    by (simp add: example_user_def)
  note inst = failed_counter_after_success [where email_in = "Some ''admin@clinic.org''"
        and e = "''admin@clinic.org''" and password_in = "Some ''correct horse''"
        and pw = "''correct horse''" and p = example_pool and user = example_user
        and now = 1000000 and env = example_env and token_in = "Some ''r1''"
        and newPassword_in = "Some ''a new password''"]
  have a: "map_option failed_login_attempts
        (find_by_email (toLowerCase ''admin@clinic.org'')
           (snd (login example_env 1000000 example_pool (Some ''admin@clinic.org'') (Some ''correct horse''))))
      = Some (Some 0)"
    using inst h1 h2 h3 h4 h5 h6 by simp
  have b: "map failed_login_attempts
        (admin_users (snd (reset_password example_env 1000000 example_pool (Some ''r1'') (Some ''a new password''))))
      = [Some 4]"
    using inst h7 c by simp
  obtain token newPassword holder where
    t: "truthy (Some ''r1'') = Some token" and n: "truthy (Some ''a new password'') = Some newPassword"
    and f: "find (has_valid_reset_token (sha256 example_env token) 1000000) (admin_users example_pool) = Some holder"
    and s: "snd (reset_password example_env 1000000 example_pool (Some ''r1'') (Some ''a new password''))
             = example_pool\<lparr>admin_users :=
                   map (\<lambda>u. if user_id u = user_id holder
                            then u\<lparr>password_hash := bcrypt_hash example_env newPassword,
                                   reset_token := None, reset_token_expiry := None,
                                   password_changed_at := Some 1000000\<rparr>
                            else u)
                     (admin_users example_pool)\<rparr>"
    using inst h7 by blast
  have token: "token = ''r1''" and np: "newPassword = ''a new password''"
    using t n by (simp_all add: truthy_def)
  have holder: "holder = example_user"
    using f by (simp add: example_pool_def split: if_splits)
  have hash: "bcrypt_hash example_env ''a new password'' = ''#a new password''"
    by (simp add: example_env_def)
  have d: "snd (reset_password example_env 1000000 example_pool (Some ''r1'') (Some ''a new password''))
      = pool_of (example_user\<lparr>password_hash := ''#a new password'', reset_token := None,
                              reset_token_expiry := None, password_changed_at := Some 1000000\<rparr>)"
    unfolding s holder np hash by (simp add: example_pool_def pool_of_def)
  show ?thesis
    using c' h6 a h7 b d by (intro conjI)
qed

text \<open>
  As stated the claim fails: the reset below succeeds and the counter of the account is
  still 4.
\<close>

theorem reset_keeps_failed_counter_counterexample:
  "status (fst (reset_password example_env 1000000 example_pool (Some ''r1'') (Some ''a new password''))) = 200
   \<and> map_option failed_login_attempts
        (find_by_id ''u1'' (snd (reset_password example_env 1000000 example_pool (Some ''r1'') (Some ''a new password''))))
      \<noteq> Some (Some 0)"
  by (simp add: reset_password_def truthy_def example_pool_def example_env_def example_user_def
      has_valid_reset_token_def json_response_def update_where_id_def find_by_id_def)

section \<open>Unknown email and wrong password\<close>

lemma login_unknown_email:
  assumes "truthy email_in = Some e" and "truthy password_in = Some pw" and "reachable p"
    and "find_by_email (toLowerCase e) p = None"
  shows "login env now p email_in password_in
         = (\<lparr>status = 401, body = [(''error'', JStr ''Invalid email or password'')]\<rparr>, p)"
  using assms by (simp add: login_def json_response_def)

lemma login_registered_wrong_password:
  assumes "truthy email_in = Some e" and "truthy password_in = Some pw" and "reachable p"
    and "find_by_email (toLowerCase e) p = Some user"
    and "\<not> is_locked user now"
    and "\<not> bcrypt_compare env pw (password_hash user)"
  shows "fst (login env now p email_in password_in)
         = \<lparr>status = 401,
            body = [(''error'', JStr ''Invalid email or password''),
                    (''attemptsRemaining'', JNum (max 0 (5 - (or0 (failed_login_attempts user) + 1))))]\<rparr>"
  using assms by (simp add: login_found login_user_def json_response_def Let_def)

text \<open>
  Among the logins that fail on the credentials (an unknown email, or a wrong password for
  an account that is not locked), the field \<open>attemptsRemaining\<close> is in the body exactly
  when the email is registered.
\<close>

lemma attemptsRemaining_iff_registered:
  assumes "truthy email_in = Some e" and "truthy password_in = Some pw" and "reachable p"
    and "\<And>user. find_by_email (toLowerCase e) p = Some user
           \<Longrightarrow> \<not> is_locked user now \<and> \<not> bcrypt_compare env pw (password_hash user)"
  shows "status (fst (login env now p email_in password_in)) = 401"
    and "map_of (body (fst (login env now p email_in password_in))) ''error''
         = Some (JStr ''Invalid email or password'')"
    and "(''attemptsRemaining'' \<in> fst ` set (body (fst (login env now p email_in password_in))))
         = (find_by_email (toLowerCase e) p \<noteq> None)"
proof -
  show "status (fst (login env now p email_in password_in)) = 401"
  proof (cases "find_by_email (toLowerCase e) p")
    case None
    then show ?thesis using login_unknown_email [OF assms(1-3)] by simp
  next
    case (Some user)
    then show ?thesis
      using login_registered_wrong_password [OF assms(1-3) Some] assms(4) by simp
  qed
  show "map_of (body (fst (login env now p email_in password_in))) ''error''
         = Some (JStr ''Invalid email or password'')"
  proof (cases "find_by_email (toLowerCase e) p")
    case None
    then show ?thesis using login_unknown_email [OF assms(1-3)] by simp
  next
    case (Some user)
    then show ?thesis
      using login_registered_wrong_password [OF assms(1-3) Some] assms(4) by simp
  qed
  show "(''attemptsRemaining'' \<in> fst ` set (body (fst (login env now p email_in password_in))))
         = (find_by_email (toLowerCase e) p \<noteq> None)"
  proof (cases "find_by_email (toLowerCase e) p")
    case None
    then show ?thesis using login_unknown_email [OF assms(1-3)] by simp
  next
    case (Some user)
    then show ?thesis
      using login_registered_wrong_password [OF assms(1-3) Some] assms(4) by simp
  qed
qed

text \<open>
  C2: a login for an unknown email and a login for a registered account that is not locked,
  with a wrong password, are to get the same response. In the example both get the status
  401 and the text \<open>Invalid email or password\<close>, but the body for the registered address
  \<open>admin@clinic.org\<close> has the further field \<open>attemptsRemaining\<close>, which the body for the
  unregistered address \<open>nobody@clinic.org\<close> lacks: the two responses differ.
\<close>

theorem login_reveals_registered_email:
  "find_by_email (toLowerCase ''nobody@clinic.org'') example_pool = None
   \<and> find_by_email (toLowerCase ''admin@clinic.org'') example_pool = Some example_user
   \<and> \<not> is_locked example_user 1000000
   \<and> \<not> bcrypt_compare example_env ''wrong'' (password_hash example_user)
   \<and> fst (login example_env 1000000 example_pool (Some ''nobody@clinic.org'') (Some ''wrong''))
     = \<lparr>status = 401, body = [(''error'', JStr ''Invalid email or password'')]\<rparr>
   \<and> fst (login example_env 1000000 example_pool (Some ''admin@clinic.org'') (Some ''wrong''))
     = \<lparr>status = 401,
        body = [(''error'', JStr ''Invalid email or password''), (''attemptsRemaining'', JNum 0)]\<rparr>
   \<and> fst (login example_env 1000000 example_pool (Some ''nobody@clinic.org'') (Some ''wrong''))
     \<noteq> fst (login example_env 1000000 example_pool (Some ''admin@clinic.org'') (Some ''wrong''))"
proof -
  have t1: "truthy (Some ''nobody@clinic.org'') = Some ''nobody@clinic.org''"
    by (simp add: truthy_def)
  have t2: "truthy (Some ''wrong'') = Some ''wrong''"
    by (simp add: truthy_def)
  have t3: "truthy (Some ''admin@clinic.org'') = Some ''admin@clinic.org''"
    by (simp add: truthy_def)
  have up: "reachable example_pool"
    by (simp add: example_pool_def)
  have h6: "find_by_email (toLowerCase ''nobody@clinic.org'') example_pool = None"
    by code_simp
  have h7: "find_by_email (toLowerCase ''admin@clinic.org'') example_pool = Some example_user"
    by code_simp
  have h8: "\<not> is_locked example_user 1000000"
    by (simp add: is_locked_def example_user_def)
  have h9: "\<not> bcrypt_compare example_env ''wrong'' (password_hash example_user)"
    by (simp add: example_env_def example_user_def)
  have c: "or0 (failed_login_attempts example_user) = 4"
    by (simp add: or0_def example_user_def)
  have r1: "fst (login example_env 1000000 example_pool (Some ''nobody@clinic.org'') (Some ''wrong''))
     = \<lparr>status = 401, body = [(''error'', JStr ''Invalid email or password'')]\<rparr>"
    using login_unknown_email [OF t1 t2 up h6] by simp
  have r2: "fst (login example_env 1000000 example_pool (Some ''admin@clinic.org'') (Some ''wrong''))
     = \<lparr>status = 401,
        body = [(''error'', JStr ''Invalid email or password''), (''attemptsRemaining'', JNum 0)]\<rparr>"
    using login_registered_wrong_password [OF t3 t2 up h7 h8 h9] c by simp
  have ne: "fst (login example_env 1000000 example_pool (Some ''nobody@clinic.org'') (Some ''wrong''))
     \<noteq> fst (login example_env 1000000 example_pool (Some ''admin@clinic.org'') (Some ''wrong''))"
    unfolding r1 r2 by simp
  show ?thesis
    using h6 h7 h8 h9 r1 r2 ne by (intro conjI)
qed

section \<open>Federation and the cap on accounts\<close>

text \<open>
  C7: for a federated sign-in with an email on the allow-list and a reachable store: when
  no account has that email and the table holds at least 5 accounts, the outcome is the
  error for the reached maximum and the store is left as it was; when an account has that
  email, the outcome is that account, its \<open>last_login\<close> is set to \<open>now\<close> and no account
  is added, whatever the number of accounts.
\<close>

theorem google_verify_capacity:
  assumes "truthy profile_email = Some mail"
    and "toLowerCase mail \<in> set (allowedEmails env)"
    and "reachable p"
  shows "(find_by_email (toLowerCase mail) p = None \<and> 5 \<le> length (admin_users p)
          \<longrightarrow> google_verify env now p profile_email displayName newId randomPassword
              = (DoneError ''Maximum number of admin accounts reached'', p))
       \<and> (\<forall>user. find_by_email (toLowerCase mail) p = Some user
          \<longrightarrow> google_verify env now p profile_email displayName newId randomPassword
              = (DoneUser user, update_where_id (user_id user) (\<lambda>u. u\<lparr>last_login := Some now\<rparr>) p)
            \<and> map_option last_login
                (find_by_email (toLowerCase mail)
                   (snd (google_verify env now p profile_email displayName newId randomPassword)))
              = Some (Some now)
            \<and> length (admin_users (snd (google_verify env now p profile_email displayName newId randomPassword)))
              = length (admin_users p))"
proof (intro conjI allI impI)
  have nonempty: "length (allowedEmails env) \<noteq> 0"
    using assms(2) by auto
  {
    assume "find_by_email (toLowerCase mail) p = None \<and> 5 \<le> length (admin_users p)"
    then show "google_verify env now p profile_email displayName newId randomPassword
              = (DoneError ''Maximum number of admin accounts reached'', p)"
      using assms nonempty by (simp add: google_verify_def Let_def)
  }
  fix user
  assume found: "find_by_email (toLowerCase mail) p = Some user"
  let ?f = "\<lambda>u. u\<lparr>last_login := Some now\<rparr>"
  show run: "google_verify env now p profile_email displayName newId randomPassword
              = (DoneUser user, update_where_id (user_id user) ?f p)"
    using assms nonempty found by (simp add: google_verify_def)
  have "find_by_email (toLowerCase mail) (update_where_id (user_id user) ?f p) = Some (?f user)"
    using find_by_email_update [OF found, of ?f "user_id user"] by simp
  with run show "map_option last_login
                (find_by_email (toLowerCase mail)
                   (snd (google_verify env now p profile_email displayName newId randomPassword)))
              = Some (Some now)"
    by simp
  show "length (admin_users (snd (google_verify env now p profile_email displayName newId randomPassword)))
              = length (admin_users p)"
    unfolding run by (simp add: update_where_id_def)
qed

text \<open>
  Five accounts and the allow-list of the example: \<open>doc@clinic.org\<close> is on the list and has
  no account, \<open>Admin@Clinic.org\<close> is on the list and has one.
\<close>

theorem google_verify_capacity_witness:
  "toLowerCase ''doc@clinic.org'' \<in> set (allowedEmails example_env)
   \<and> find_by_email (toLowerCase ''doc@clinic.org'') example_full_pool = None
   \<and> length (admin_users example_full_pool) = 5
   \<and> google_verify example_env 2000000 example_full_pool (Some ''doc@clinic.org'') None ''u6'' ''r''
       = (DoneError ''Maximum number of admin accounts reached'', example_full_pool)
   \<and> toLowerCase ''Admin@Clinic.org'' \<in> set (allowedEmails example_env)
   \<and> find_by_email (toLowerCase ''Admin@Clinic.org'') example_full_pool = Some example_user
   \<and> fst (google_verify example_env 2000000 example_full_pool (Some ''Admin@Clinic.org'') None ''u6'' ''r'')
       = DoneUser example_user
   \<and> map_option last_login
        (find_by_email (toLowerCase ''Admin@Clinic.org'')
           (snd (google_verify example_env 2000000 example_full_pool (Some ''Admin@Clinic.org'') None ''u6'' ''r'')))
       = Some (Some 2000000)
   \<and> length (admin_users (snd (google_verify example_env 2000000 example_full_pool (Some ''Admin@Clinic.org'') None ''u6'' ''r'')))
       = 5"
proof -
  have a1: "truthy (Some ''doc@clinic.org'') = Some ''doc@clinic.org''"
    by (simp add: truthy_def)
  have a2: "toLowerCase ''doc@clinic.org'' \<in> set (allowedEmails example_env)"
    by code_simp
  have a3: "reachable example_full_pool"
    by (simp add: example_full_pool_def)
  have a4: "find_by_email (toLowerCase ''doc@clinic.org'') example_full_pool = None"
    by code_simp
  have a5: "length (admin_users example_full_pool) = 5"
    by (simp add: example_full_pool_def)
  have b1: "truthy (Some ''Admin@Clinic.org'') = Some ''Admin@Clinic.org''"
    by (simp add: truthy_def)
  have b2: "toLowerCase ''Admin@Clinic.org'' \<in> set (allowedEmails example_env)"
    by code_simp
  have b4: "find_by_email (toLowerCase ''Admin@Clinic.org'') example_full_pool = Some example_user"
    by code_simp
  have cap: "google_verify example_env 2000000 example_full_pool (Some ''doc@clinic.org'') None ''u6'' ''r''
       = (DoneError ''Maximum number of admin accounts reached'', example_full_pool)"
    using google_verify_capacity [OF a1 a2 a3, of 2000000 None "''u6''" "''r''"] a4 a5 by simp
  have ex: "google_verify example_env 2000000 example_full_pool (Some ''Admin@Clinic.org'') None ''u6'' ''r''
       = (DoneUser example_user,
          update_where_id (user_id example_user) (\<lambda>u. u\<lparr>last_login := Some 2000000\<rparr>) example_full_pool)
     \<and> map_option last_login
        (find_by_email (toLowerCase ''Admin@Clinic.org'')
           (snd (google_verify example_env 2000000 example_full_pool (Some ''Admin@Clinic.org'') None ''u6'' ''r'')))
       = Some (Some 2000000)
     \<and> length (admin_users (snd (google_verify example_env 2000000 example_full_pool (Some ''Admin@Clinic.org'') None ''u6'' ''r'')))
       = length (admin_users example_full_pool)"
    using google_verify_capacity [OF b1 b2 a3, of 2000000 None "''u6''" "''r''"] b4 by blast
  have ex1: "fst (google_verify example_env 2000000 example_full_pool (Some ''Admin@Clinic.org'') None ''u6'' ''r'')
       = DoneUser example_user"
    using ex by simp
  show ?thesis
    using cap ex1 conjunct1 [OF conjunct2 [OF ex]] conjunct2 [OF conjunct2 [OF ex]] a2 a4 a5 b2 b4
    by (intro conjI) simp_all
qed

section \<open>Confirming the MFA enrolment\<close>

lemma truthy_Some: "truthy v = Some s \<Longrightarrow> v = Some s"
  by (auto simp: truthy_def split: option.splits if_splits)

text \<open>
  C8: enable-mfa, called with an accepted token for an account that has a pending secret.
  With a code that is valid for the pending secret, one \<^verbatim>\<open>UPDATE\<close> sets \<open>mfa_enabled\<close>,
  copies the pending secret into \<open>mfa_secret\<close> and clears \<open>mfa_secret_temp\<close>: afterwards the
  account has the pending secret as its active one, no pending secret, and its other
  columns as before. With an invalid code the answer is the status 401 with
  \<open>Invalid MFA code\<close> and the store is left as it was.
\<close>

theorem enable_mfa_confirm:
  assumes "authenticateToken env now authHeader = Inr user"
    and "truthy mfaCode_in = Some code" and "reachable p"
    and "find_by_id (userId user) p = Some row"
    and "truthy (mfa_secret_temp row) = Some secret"
  shows "(totp_verify env secret code now \<longrightarrow>
            enable_mfa env now p authHeader mfaCode_in
              = (json_response 200 [(''message'', JStr ''MFA enabled successfully'')],
                 update_where_id (userId user)
                   (\<lambda>u. u\<lparr>mfa_enabled := True, mfa_secret := mfa_secret_temp u,
                          mfa_secret_temp := None\<rparr>) p)
            \<and> find_by_id (userId user) (snd (enable_mfa env now p authHeader mfaCode_in))
              = Some (row\<lparr>mfa_enabled := True, mfa_secret := Some secret, mfa_secret_temp := None\<rparr>))
       \<and> (\<not> totp_verify env secret code now \<longrightarrow>
            enable_mfa env now p authHeader mfaCode_in
              = (json_response 401 [(''error'', JStr ''Invalid MFA code'')], p))"
proof (intro conjI impI)
  let ?f = "\<lambda>u. u\<lparr>mfa_enabled := True, mfa_secret := mfa_secret_temp u, mfa_secret_temp := None\<rparr>"
  have pending: "mfa_secret_temp row = Some secret"
    using assms(5) by (rule truthy_Some)
  have rid: "user_id row = userId user"
    using assms(4) by (rule find_by_id_user_id)
  {
    assume valid: "totp_verify env secret code now"
    show run: "enable_mfa env now p authHeader mfaCode_in
              = (json_response 200 [(''message'', JStr ''MFA enabled successfully'')],
                 update_where_id (userId user) ?f p)"
      using assms valid by (simp add: enable_mfa_def guarded_def enable_mfa_handler_def)
    have "find_by_id (userId user) (update_where_id (userId user) ?f p) = Some (?f row)"
      using find_by_id_update [OF assms(4), of ?f "userId user"] rid by simp
    then show "find_by_id (userId user) (snd (enable_mfa env now p authHeader mfaCode_in))
              = Some (row\<lparr>mfa_enabled := True, mfa_secret := Some secret, mfa_secret_temp := None\<rparr>)"
      unfolding run using pending by simp
  }
  assume "\<not> totp_verify env secret code now"
  then show "enable_mfa env now p authHeader mfaCode_in
              = (json_response 401 [(''error'', JStr ''Invalid MFA code'')], p)"
    using assms by (simp add: enable_mfa_def guarded_def enable_mfa_handler_def)
qed

text \<open>
  The account of the example with the pending secret \<open>XYZ\<close> beside its active secret
  \<open>ABC\<close>, the session token of the example, the valid code \<open>ZYX\<close> and the invalid code
  \<open>000\<close>.
\<close>

theorem enable_mfa_confirm_witness:
  "authenticateToken example_env 1200000 (Some ''Bearer full.u1'') = Inr (payload example_session_jwt)
   \<and> totp_verify example_env ''XYZ'' ''ZYX'' 1200000
   \<and> enable_mfa example_env 1200000 (pool_of (example_user\<lparr>mfa_secret_temp := Some ''XYZ''\<rparr>))
        (Some ''Bearer full.u1'') (Some ''ZYX'')
      = (json_response 200 [(''message'', JStr ''MFA enabled successfully'')],
         pool_of (example_user\<lparr>mfa_secret := Some ''XYZ''\<rparr>))
   \<and> \<not> totp_verify example_env ''XYZ'' ''000'' 1200000
   \<and> enable_mfa example_env 1200000 (pool_of (example_user\<lparr>mfa_secret_temp := Some ''XYZ''\<rparr>))
        (Some ''Bearer full.u1'') (Some ''000'')
      = (json_response 401 [(''error'', JStr ''Invalid MFA code'')],
         pool_of (example_user\<lparr>mfa_secret_temp := Some ''XYZ''\<rparr>))"
proof -
  let ?row = "example_user\<lparr>mfa_secret_temp := Some ''XYZ''\<rparr>"
  have h1: "authenticateToken example_env 1200000 (Some ''Bearer full.u1'') = Inr (payload example_session_jwt)"
    by (simp add: authenticateToken_def truthy_def at_index_def jwt_verify_def example_env_def
        example_session_jwt_def)
  have h2: "truthy (Some ''ZYX'') = Some ''ZYX''"
    by (simp add: truthy_def)
  have h2': "truthy (Some ''000'') = Some ''000''"
    by (simp add: truthy_def)
  have h3: "reachable (pool_of ?row)"
    by (simp add: pool_of_def)
  have h4: "find_by_id (userId (payload example_session_jwt)) (pool_of ?row) = Some ?row"
    by (simp add: find_by_id_def pool_of_def example_session_jwt_def example_user_def)
  have h5: "truthy (mfa_secret_temp ?row) = Some ''XYZ''"
    by (simp add: truthy_def)
  have v: "totp_verify example_env ''XYZ'' ''ZYX'' 1200000"
    by (simp add: example_env_def)
  have nv: "\<not> totp_verify example_env ''XYZ'' ''000'' 1200000"
    by (simp add: example_env_def)
  have after: "update_where_id (userId (payload example_session_jwt))
                 (\<lambda>u. u\<lparr>mfa_enabled := True, mfa_secret := mfa_secret_temp u, mfa_secret_temp := None\<rparr>)
                 (pool_of ?row)
               = pool_of (example_user\<lparr>mfa_secret := Some ''XYZ''\<rparr>)"
    by (simp add: update_where_id_def pool_of_def example_session_jwt_def example_user_def)
  have ok: "enable_mfa example_env 1200000 (pool_of ?row) (Some ''Bearer full.u1'') (Some ''ZYX'')
      = (json_response 200 [(''message'', JStr ''MFA enabled successfully'')],
         pool_of (example_user\<lparr>mfa_secret := Some ''XYZ''\<rparr>))"
    using enable_mfa_confirm [OF h1 h2 h3 h4 h5] v after by simp
  have bad: "enable_mfa example_env 1200000 (pool_of ?row) (Some ''Bearer full.u1'') (Some ''000'')
      = (json_response 401 [(''error'', JStr ''Invalid MFA code'')], pool_of ?row)"
    using enable_mfa_confirm [OF h1 h2' h3 h4 h5] nv by simp
  show ?thesis
    using h1 v nv ok bad by (intro conjI)
qed

section \<open>The temporary token at the routes behind authenticateToken\<close>

lemma authenticateToken_accepts:
  assumes "truthy (Some h) = Some h"
    and "truthy (at_index (split_on CHR '' '' h) 1) = Some t"
    and "jwt_verify env t (JWT_SECRET env) now = Inr c"
  shows "authenticateToken env now (Some h) = Inr c"
  using assms by (simp add: authenticateToken_def)

lemma guarded_runs_handler:
  "authenticateToken env now authHeader = Inr c \<Longrightarrow> guarded env now authHeader p handler = handler c"
  by (simp add: guarded_def)

text \<open>
  C1: a temporary token of the MFA step, validly signed and unexpired, presented to a route
  behind \<open>authenticateToken\<close>. The middleware verifies signature and expiry and passes the
  payload on without reading \<open>temp\<close>: in the example, the login with the correct password
  alone hands out the temporary token, the middleware accepts it 200 seconds later, and the
  routes me and disable-mfa answer 200 to it; disable-mfa switches MFA off.
\<close>

theorem temp_token_passes_authenticateToken:
  "fst (login example_env 1000000 example_pool (Some ''admin@clinic.org'') (Some ''correct horse''))
     = json_response 200 [(''requiresMFA'', JBool True), (''tempToken'', JStr ''temp.u1'')]
   \<and> authenticateToken example_env 1200000 (Some ''Bearer temp.u1'')
     = Inr \<lparr>userId = ''u1'', email_claim = None, role = None, temp = Some True\<rparr>
   \<and> me example_env 1200000 example_pool (Some ''Bearer temp.u1'')
     = (json_response 200
          [(''user'', JObj [(''id'', JStr ''u1''), (''email'', JStr ''admin@clinic.org''),
                            (''name'', JStr ''Admin''), (''mfa_enabled'', JBool True),
                            (''created_at'', JDate 0), (''last_login'', JNull)])],
        example_pool)
   \<and> disable_mfa example_env 1200000 example_pool (Some ''Bearer temp.u1'') (Some ''correct horse'')
     = (json_response 200 [(''message'', JStr ''MFA disabled successfully'')],
        pool_of (example_user\<lparr>mfa_enabled := False, mfa_secret := None\<rparr>))"
proof -
  have found: "find_by_email (toLowerCase ''admin@clinic.org'') example_pool = Some example_user"
    by code_simp
  have issue: "fst (login example_env 1000000 example_pool (Some ''admin@clinic.org'') (Some ''correct horse''))
     = json_response 200 [(''requiresMFA'', JBool True), (''tempToken'', JStr ''temp.u1'')]"
    using found
    by (simp add: login_def login_user_def truthy_def is_locked_def Let_def generateTempToken_def
        jwt_sign_def)
       (simp add: example_pool_def example_user_def example_env_def)
  have auth: "authenticateToken example_env 1200000 (Some ''Bearer temp.u1'')
     = Inr \<lparr>userId = ''u1'', email_claim = None, role = None, temp = Some True\<rparr>"
    by (simp add: authenticateToken_def truthy_def at_index_def jwt_verify_def example_env_def
        example_temp_jwt_def)
  have me: "me example_env 1200000 example_pool (Some ''Bearer temp.u1'')
     = (json_response 200
          [(''user'', JObj [(''id'', JStr ''u1''), (''email'', JStr ''admin@clinic.org''),
                            (''name'', JStr ''Admin''), (''mfa_enabled'', JBool True),
                            (''created_at'', JDate 0), (''last_login'', JNull)])],
        example_pool)"
    unfolding me_def guarded_runs_handler [OF auth]
    by (simp add: me_handler_def find_by_id_def json_time_def example_pool_def example_user_def)
  have dis: "disable_mfa example_env 1200000 example_pool (Some ''Bearer temp.u1'') (Some ''correct horse'')
     = (json_response 200 [(''message'', JStr ''MFA disabled successfully'')],
        pool_of (example_user\<lparr>mfa_enabled := False, mfa_secret := None\<rparr>))"
    unfolding disable_mfa_def guarded_runs_handler [OF auth]
    by (simp add: disable_mfa_handler_def truthy_def find_by_id_def update_where_id_def pool_of_def
        example_pool_def example_user_def example_env_def)
  show ?thesis
    using issue auth me dis by (intro conjI)
qed

section \<open>An expired temporary token at verify-mfa\<close>

lemma verify_mfa_jwt_error:
  assumes "truthy tempToken_in = Some t" and "truthy mfaCode_in = Some c"
    and "jwt_verify env t (JWT_SECRET env) now = Inl err"
  shows "verify_mfa env now p tempToken_in mfaCode_in = (internal_server_error, p)"
  using assms by (simp add: verify_mfa_def)

lemma verify_mfa_not_temp:
  assumes "truthy tempToken_in = Some t" and "truthy mfaCode_in = Some c"
    and "jwt_verify env t (JWT_SECRET env) now = Inr decoded" and "temp decoded \<noteq> Some True"
  shows "verify_mfa env now p tempToken_in mfaCode_in
         = (json_response 401 [(''error'', JStr ''Invalid token'')], p)"
  using assms by (simp add: verify_mfa_def)

lemma verify_mfa_store_unreachable:
  assumes "truthy tempToken_in = Some t" and "truthy mfaCode_in = Some c"
    and "jwt_verify env t (JWT_SECRET env) now = Inr decoded" and "temp decoded = Some True"
    and "\<not> reachable p"
  shows "verify_mfa env now p tempToken_in mfaCode_in = (internal_server_error, p)"
  using assms by (simp add: verify_mfa_def)

text \<open>
  C6: verify-mfa with a temporary token past its five minutes. \<^verbatim>\<open>jwt.verify\<close> throws inside
  \<^verbatim>\<open>try\<close> and the \<^verbatim>\<open>catch\<close> block answers: in the example, the token issued at second 1000
  is expired at second 1300, and with the correct code the answer is the status 500 with
  \<open>Internal server error\<close>, the answer that the same request gets one millisecond earlier
  from an unreachable store. A session token in its place gets the status 401 with
  \<open>Invalid token\<close>.
\<close>

theorem verify_mfa_expired_token:
  "jwt_verify example_env ''temp.u1'' (JWT_SECRET example_env) 1300000 = Inl TokenExpiredError
   \<and> totp_verify example_env ''ABC'' ''CBA'' 1300000
   \<and> verify_mfa example_env 1300000 example_pool (Some ''temp.u1'') (Some ''CBA'')
     = (json_response 500 [(''error'', JStr ''Internal server error'')], example_pool)
   \<and> verify_mfa example_env 1299999 (example_pool\<lparr>reachable := False\<rparr>) (Some ''temp.u1'') (Some ''CBA'')
     = (json_response 500 [(''error'', JStr ''Internal server error'')], example_pool\<lparr>reachable := False\<rparr>)
   \<and> verify_mfa example_env 1299999 example_pool (Some ''temp.u1'') (Some ''CBA'')
     = (json_response 200
          [(''token'', JStr ''full.u1''),
           (''user'', JObj [(''id'', JStr ''u1''), (''email'', JStr ''admin@clinic.org''),
                            (''name'', JStr ''Admin'')])],
        example_pool)
   \<and> verify_mfa example_env 1299999 example_pool (Some ''full.u1'') (Some ''CBA'')
     = (json_response 401 [(''error'', JStr ''Invalid token'')], example_pool)"
proof -
  have t1: "truthy (Some ''temp.u1'') = Some ''temp.u1''"
    by (simp add: truthy_def)
  have t2: "truthy (Some ''CBA'') = Some ''CBA''"
    by (simp add: truthy_def)
  have t3: "truthy (Some ''full.u1'') = Some ''full.u1''"
    by (simp add: truthy_def)
  have expired: "jwt_verify example_env ''temp.u1'' (JWT_SECRET example_env) 1300000 = Inl TokenExpiredError"
    by (simp add: jwt_verify_def example_env_def example_temp_jwt_def)
  have fresh: "jwt_verify example_env ''temp.u1'' (JWT_SECRET example_env) 1299999
               = Inr \<lparr>userId = ''u1'', email_claim = None, role = None, temp = Some True\<rparr>"
    by (simp add: jwt_verify_def example_env_def example_temp_jwt_def)
  have session: "jwt_verify example_env ''full.u1'' (JWT_SECRET example_env) 1299999
               = Inr \<lparr>userId = ''u1'', email_claim = Some ''admin@clinic.org'',
                      role = Some ''admin'', temp = None\<rparr>"
    by (simp add: jwt_verify_def example_env_def example_session_jwt_def)
  have code: "totp_verify example_env ''ABC'' ''CBA'' 1300000"
    by (simp add: example_env_def)
  have a: "verify_mfa example_env 1300000 example_pool (Some ''temp.u1'') (Some ''CBA'')
     = (json_response 500 [(''error'', JStr ''Internal server error'')], example_pool)"
    using verify_mfa_jwt_error [OF t1 t2 expired] by (simp add: internal_server_error_def)
  have b: "verify_mfa example_env 1299999 (example_pool\<lparr>reachable := False\<rparr>) (Some ''temp.u1'') (Some ''CBA'')
     = (json_response 500 [(''error'', JStr ''Internal server error'')], example_pool\<lparr>reachable := False\<rparr>)"
    using verify_mfa_store_unreachable [OF t1 t2 fresh, of "example_pool\<lparr>reachable := False\<rparr>"]
    by (simp add: internal_server_error_def)
  have c: "verify_mfa example_env 1299999 example_pool (Some ''temp.u1'') (Some ''CBA'')
     = (json_response 200
          [(''token'', JStr ''full.u1''),
           (''user'', JObj [(''id'', JStr ''u1''), (''email'', JStr ''admin@clinic.org''),
                            (''name'', JStr ''Admin'')])],
        example_pool)"
    by (simp add: verify_mfa_def fresh truthy_def find_by_id_def example_pool_def example_user_def)
       (simp add: generateToken_def jwt_sign_def user_json_def example_env_def)
  have d: "verify_mfa example_env 1299999 example_pool (Some ''full.u1'') (Some ''CBA'')
     = (json_response 401 [(''error'', JStr ''Invalid token'')], example_pool)"
    using verify_mfa_not_temp [OF t3 t2 session] by simp
  show ?thesis
    using expired code a b c d by (intro conjI)
qed

section \<open>Two concurrent wrong passwords\<close>

lemma login_user_wrong_password:
  assumes "\<not> is_locked user now" and "\<not> bcrypt_compare env pw (password_hash user)"
  shows "login_user env now p pw user =
           (json_response 401
              [(''error'', JStr ''Invalid email or password''),
               (''attemptsRemaining'', JNum (max 0 (5 - (or0 (failed_login_attempts user) + 1))))],
            update_where_id (user_id user)
              (\<lambda>u. u\<lparr>failed_login_attempts := Some (or0 (failed_login_attempts user) + 1),
                     locked_until := (if or0 (failed_login_attempts user) + 1 \<ge> 5
                                      then Some (now + 15 * 60 * 1000) else None)\<rparr>) p)"
  using assms by (simp add: login_user_def Let_def)

text \<open>
  C9, amended: the update of the failed counter and the lockout expiry in login is a
  read-modify-write across two round trips, a \<^verbatim>\<open>SELECT\<close> and then an \<^verbatim>\<open>UPDATE\<close> that writes
  the counter and the lockout computed from the row read; it is not an atomic increment.
  When two concurrent wrong-password attempts against one account both read the counter 4,
  each of them writes the counter 5 together with the lockout expiry at its own time plus
  15 minutes and answers \<open>attemptsRemaining = 0\<close>: the stored counter ends at 5, one
  increment being lost, and no write of the counter 5 leaves the lockout unset.
\<close>

theorem concurrent_wrong_passwords:
  assumes "find_by_email (toLowerCase e) p = Some user"
    and "or0 (failed_login_attempts user) = 4"
    and "\<not> is_locked user t1" and "\<not> is_locked user t2"
    and "\<not> bcrypt_compare env pw1 (password_hash user)"
    and "\<not> bcrypt_compare env pw2 (password_hash user)"
  shows "concurrent_logins env t1 t2 p e pw1 pw2
         = Some
            (json_response 401
               [(''error'', JStr ''Invalid email or password''), (''attemptsRemaining'', JNum 0)],
             json_response 401
               [(''error'', JStr ''Invalid email or password''), (''attemptsRemaining'', JNum 0)],
             update_where_id (user_id user)
               (\<lambda>u. u\<lparr>failed_login_attempts := Some 5, locked_until := Some (t1 + 15 * 60 * 1000)\<rparr>) p,
             update_where_id (user_id user)
               (\<lambda>u. u\<lparr>failed_login_attempts := Some 5, locked_until := Some (t2 + 15 * 60 * 1000)\<rparr>)
               (update_where_id (user_id user)
                  (\<lambda>u. u\<lparr>failed_login_attempts := Some 5, locked_until := Some (t1 + 15 * 60 * 1000)\<rparr>) p))
       \<and> find_by_email (toLowerCase e)
            (update_where_id (user_id user)
               (\<lambda>u. u\<lparr>failed_login_attempts := Some 5, locked_until := Some (t1 + 15 * 60 * 1000)\<rparr>) p)
         = Some (user\<lparr>failed_login_attempts := Some 5, locked_until := Some (t1 + 15 * 60 * 1000)\<rparr>)
       \<and> find_by_email (toLowerCase e)
            (update_where_id (user_id user)
               (\<lambda>u. u\<lparr>failed_login_attempts := Some 5, locked_until := Some (t2 + 15 * 60 * 1000)\<rparr>)
               (update_where_id (user_id user)
                  (\<lambda>u. u\<lparr>failed_login_attempts := Some 5, locked_until := Some (t1 + 15 * 60 * 1000)\<rparr>) p))
         = Some (user\<lparr>failed_login_attempts := Some 5, locked_until := Some (t2 + 15 * 60 * 1000)\<rparr>)"
proof -
  let ?f1 = "\<lambda>u. u\<lparr>failed_login_attempts := Some 5, locked_until := Some (t1 + 15 * 60 * 1000)\<rparr>"
  let ?f2 = "\<lambda>u. u\<lparr>failed_login_attempts := Some 5, locked_until := Some (t2 + 15 * 60 * 1000)\<rparr>"
  let ?r = "json_response 401
               [(''error'', JStr ''Invalid email or password''), (''attemptsRemaining'', JNum 0)]"
  let ?p1 = "update_where_id (user_id user) ?f1 p"
  let ?p2 = "update_where_id (user_id user) ?f2 ?p1"
  have w1: "login_user env t1 p pw1 user = (?r, ?p1)"
    using login_user_wrong_password [OF assms(3) assms(5), of p] assms(2) by simp
  have w2: "login_user env t2 ?p1 pw2 user = (?r, ?p2)"
    using login_user_wrong_password [OF assms(4) assms(6), of ?p1] assms(2) by simp
  have run: "concurrent_logins env t1 t2 p e pw1 pw2 = Some (?r, ?r, ?p1, ?p2)"
    by (simp only: concurrent_logins_def assms(1) option.case Let_def w1 prod.case w2)
  have f1: "find_by_email (toLowerCase e) ?p1 = Some (?f1 user)"
    using find_by_email_update [OF assms(1), of ?f1 "user_id user"] by simp
  have f2: "find_by_email (toLowerCase e) ?p2 = Some (?f2 (?f1 user))"
    using find_by_email_update [OF f1, of ?f2 "user_id user"] by simp
  have f2': "find_by_email (toLowerCase e) ?p2
             = Some (user\<lparr>failed_login_attempts := Some 5, locked_until := Some (t2 + 15 * 60 * 1000)\<rparr>)"
    using f2 by simp
  show ?thesis
    using run f1 f2' by (intro conjI)
qed

text \<open>Two wrong passwords for the account of the example, seven milliseconds apart.\<close>

theorem concurrent_wrong_passwords_witness:
  "find_by_email (toLowerCase ''admin@clinic.org'') example_pool = Some example_user
   \<and> or0 (failed_login_attempts example_user) = 4
   \<and> concurrent_logins example_env 1000000 1000007 example_pool ''admin@clinic.org'' ''x'' ''y''
       = Some
          (json_response 401
             [(''error'', JStr ''Invalid email or password''), (''attemptsRemaining'', JNum 0)],
           json_response 401
             [(''error'', JStr ''Invalid email or password''), (''attemptsRemaining'', JNum 0)],
           pool_of (example_user\<lparr>failed_login_attempts := Some 5, locked_until := Some 1900000\<rparr>),
           pool_of (example_user\<lparr>failed_login_attempts := Some 5, locked_until := Some 1900007\<rparr>))"
proof -
  have h1: "find_by_email (toLowerCase ''admin@clinic.org'') example_pool = Some example_user"
    by code_simp
  have h2: "or0 (failed_login_attempts example_user) = 4"
    by (simp add: or0_def example_user_def)
  have h3: "\<not> is_locked example_user 1000000"
    by (simp add: is_locked_def example_user_def)
  have h4: "\<not> is_locked example_user 1000007"
    by (simp add: is_locked_def example_user_def)
  have h5: "\<not> bcrypt_compare example_env ''x'' (password_hash example_user)"
    by (simp add: example_env_def example_user_def)
  have h6: "\<not> bcrypt_compare example_env ''y'' (password_hash example_user)"
    by (simp add: example_env_def example_user_def)
  have uid: "user_id example_user = ''u1''"
    by (simp add: example_user_def)
  have p1: "update_where_id ''u1''
              (\<lambda>u. u\<lparr>failed_login_attempts := Some 5, locked_until := Some (1000000 + 15 * 60 * 1000)\<rparr>)
              example_pool
            = pool_of (example_user\<lparr>failed_login_attempts := Some 5, locked_until := Some 1900000\<rparr>)"
    by (simp add: update_where_id_def pool_of_def example_pool_def uid)
  have p2: "update_where_id ''u1''
              (\<lambda>u. u\<lparr>failed_login_attempts := Some 5, locked_until := Some (1000007 + 15 * 60 * 1000)\<rparr>)
              (pool_of (example_user\<lparr>failed_login_attempts := Some 5, locked_until := Some 1900000\<rparr>))
            = pool_of (example_user\<lparr>failed_login_attempts := Some 5, locked_until := Some 1900007\<rparr>)"
    by (simp add: update_where_id_def pool_of_def uid)
  have run: "concurrent_logins example_env 1000000 1000007 example_pool ''admin@clinic.org'' ''x'' ''y''
       = Some
          (json_response 401
             [(''error'', JStr ''Invalid email or password''), (''attemptsRemaining'', JNum 0)],
           json_response 401
             [(''error'', JStr ''Invalid email or password''), (''attemptsRemaining'', JNum 0)],
           pool_of (example_user\<lparr>failed_login_attempts := Some 5, locked_until := Some 1900000\<rparr>),
           pool_of (example_user\<lparr>failed_login_attempts := Some 5, locked_until := Some 1900007\<rparr>))"
    using conjunct1 [OF concurrent_wrong_passwords [OF h1 h2 h3 h4 h5 h6]]
    unfolding uid p1 p2 .
  show ?thesis
    using h1 h2 run by (intro conjI)
qed

text \<open>
  As stated the claim fails: after the two attempts of the example, which both read the
  counter 4, the store holds the counter 5; two atomic increments of the stored counter
  give 6.
\<close>

theorem concurrent_logins_counterexample:
  "concurrent_logins example_env 1000000 1000007 example_pool ''admin@clinic.org'' ''x'' ''y''
     = Some
        (json_response 401
           [(''error'', JStr ''Invalid email or password''), (''attemptsRemaining'', JNum 0)],
         json_response 401
           [(''error'', JStr ''Invalid email or password''), (''attemptsRemaining'', JNum 0)],
         pool_of (example_user\<lparr>failed_login_attempts := Some 5, locked_until := Some 1900000\<rparr>),
         pool_of (example_user\<lparr>failed_login_attempts := Some 5, locked_until := Some 1900007\<rparr>))
   \<and> spec_atomic_increment 1000007 ''u1'' (spec_atomic_increment 1000000 ''u1'' example_pool)
     = pool_of (example_user\<lparr>failed_login_attempts := Some 6, locked_until := Some 1900007\<rparr>)
   \<and> pool_of (example_user\<lparr>failed_login_attempts := Some 5, locked_until := Some 1900007\<rparr>)
     \<noteq> spec_atomic_increment 1000007 ''u1'' (spec_atomic_increment 1000000 ''u1'' example_pool)"
proof -
  have h1: "find_by_email (toLowerCase ''admin@clinic.org'') example_pool = Some example_user"
    by code_simp
  have h3: "\<not> is_locked example_user 1000000"
    by (simp add: is_locked_def example_user_def)
  have h4: "\<not> is_locked example_user 1000007"
    by (simp add: is_locked_def example_user_def)
  have h5: "\<not> bcrypt_compare example_env ''x'' (password_hash example_user)"
    by (simp add: example_env_def example_user_def)
  have h6: "\<not> bcrypt_compare example_env ''y'' (password_hash example_user)"
    by (simp add: example_env_def example_user_def)
  have c: "or0 (failed_login_attempts example_user) + 1 = 5"
    by (simp add: or0_def example_user_def)
  have uid: "user_id example_user = ''u1''"
    by (simp add: example_user_def)
  let ?r = "json_response 401
               [(''error'', JStr ''Invalid email or password''), (''attemptsRemaining'', JNum 0)]"
  let ?p1 = "pool_of (example_user\<lparr>failed_login_attempts := Some 5, locked_until := Some 1900000\<rparr>)"
  let ?p2 = "pool_of (example_user\<lparr>failed_login_attempts := Some 5, locked_until := Some 1900007\<rparr>)"
  have w1: "login_user example_env 1000000 example_pool ''x'' example_user = (?r, ?p1)"
    unfolding login_user_wrong_password [OF h3 h5] c uid
    by (simp add: update_where_id_def pool_of_def example_pool_def uid)
  have w2: "login_user example_env 1000007 ?p1 ''y'' example_user = (?r, ?p2)"
    unfolding login_user_wrong_password [OF h4 h6] c uid
    by (simp add: update_where_id_def pool_of_def uid)
  have run: "concurrent_logins example_env 1000000 1000007 example_pool ''admin@clinic.org'' ''x'' ''y''
     = Some (?r, ?r, ?p1, ?p2)"
    by (simp only: concurrent_logins_def h1 option.case Let_def w1 prod.case w2)
  have atomic: "spec_atomic_increment 1000007 ''u1'' (spec_atomic_increment 1000000 ''u1'' example_pool)
     = pool_of (example_user\<lparr>failed_login_attempts := Some 6, locked_until := Some 1900007\<rparr>)"
    by (simp add: spec_atomic_increment_def update_where_id_def or0_def pool_of_def
        example_pool_def example_user_def)
  have ne: "example_user\<lparr>failed_login_attempts := Some 5, locked_until := Some 1900007\<rparr>
            \<noteq> example_user\<lparr>failed_login_attempts := Some 6, locked_until := Some 1900007\<rparr>"
  proof
    assume "example_user\<lparr>failed_login_attempts := Some 5, locked_until := Some 1900007\<rparr>
            = example_user\<lparr>failed_login_attempts := Some 6, locked_until := Some 1900007\<rparr>"
    then have "failed_login_attempts (example_user\<lparr>failed_login_attempts := Some 5, locked_until := Some 1900007\<rparr>)
            = failed_login_attempts (example_user\<lparr>failed_login_attempts := Some 6, locked_until := Some 1900007\<rparr>)"
      by (rule arg_cong)
    then show False by simp
  qed
  have differ: "?p2 \<noteq> spec_atomic_increment 1000007 ''u1'' (spec_atomic_increment 1000000 ''u1'' example_pool)"
    unfolding atomic using ne by (simp add: pool_of_def)
  show ?thesis
    using run atomic differ by (intro conjI)
qed

end
